theory Spec2Isabelle
  imports Complex_Main
begin

section \<open>Strings of the chat bot\<close>

text \<open>
  The chat bot (\<^verbatim>\<open>packages/chat-bot/src/index.ts\<close>) is a TypeScript program. Its strings
  are modelled as byte strings holding the UTF-8 encoding of the text, so the Japanese
  literals of the source appear as the bytes of their encoding. No function of the source
  measures the length of a string, and the three string operations it uses
  (\<^verbatim>\<open>toLowerCase\<close> compared with an ASCII word, \<^verbatim>\<open>trim\<close>, and a regular expression over
  \<^verbatim>\<open>/\<close>) read a UTF-8 string the way they read the UTF-16 one.
\<close>

fun drop_prefix :: "string \<Rightarrow> string \<Rightarrow> string option" where
  "drop_prefix [] s = Some s"
| "drop_prefix (p # ps) [] = None"
| "drop_prefix (p # ps) (c # cs) = (if p = c then drop_prefix ps cs else None)"

definition lower_char :: "char \<Rightarrow> char" where
  "lower_char c =
     (case map_of (zip ''ABCDEFGHIJKLMNOPQRSTUVWXYZ'' ''abcdefghijklmnopqrstuvwxyz'') c of
        Some d \<Rightarrow> d
      | None \<Rightarrow> c)"

definition toLowerCase :: "string \<Rightarrow> string" where
  \<comment> \<open>\<^verbatim>\<open>String.prototype.toLowerCase\<close> on the ASCII letters. A letter outside ASCII is left as
      it is: no such letter lowers to an ASCII one that occurs in \<^verbatim>\<open>questions\<close>, the only
      word the source compares a lowered string with.\<close>
  "toLowerCase s = map lower_char s"

definition white_space :: "string list" where
  \<comment> \<open>The WhiteSpace and LineTerminator code points of ECMAScript, UTF-8 encoded:
      U+0009..U+000D, U+0020, U+00A0, U+1680, U+2000..U+200A, U+2028, U+2029, U+202F,
      U+205F, U+3000, U+FEFF.\<close>
  "white_space =
     [[CHR 0x09], [CHR 0x0A], [CHR 0x0B], [CHR 0x0C], [CHR 0x0D], [CHR 0x20],
      [CHR 0xC2, CHR 0xA0], [CHR 0xE1, CHR 0x9A, CHR 0x80],
      [CHR 0xE2, CHR 0x80, CHR 0x80], [CHR 0xE2, CHR 0x80, CHR 0x81],
      [CHR 0xE2, CHR 0x80, CHR 0x82], [CHR 0xE2, CHR 0x80, CHR 0x83],
      [CHR 0xE2, CHR 0x80, CHR 0x84], [CHR 0xE2, CHR 0x80, CHR 0x85],
      [CHR 0xE2, CHR 0x80, CHR 0x86], [CHR 0xE2, CHR 0x80, CHR 0x87],
      [CHR 0xE2, CHR 0x80, CHR 0x88], [CHR 0xE2, CHR 0x80, CHR 0x89],
      [CHR 0xE2, CHR 0x80, CHR 0x8A], [CHR 0xE2, CHR 0x80, CHR 0xA8],
      [CHR 0xE2, CHR 0x80, CHR 0xA9], [CHR 0xE2, CHR 0x80, CHR 0xAF],
      [CHR 0xE2, CHR 0x81, CHR 0x9F], [CHR 0xE3, CHR 0x80, CHR 0x80],
      [CHR 0xEF, CHR 0xBB, CHR 0xBF]]"

fun strip_one :: "string list \<Rightarrow> string \<Rightarrow> string option" where
  "strip_one [] s = None"
| "strip_one (w # ws) s =
     (case drop_prefix w s of Some r \<Rightarrow> Some r | None \<Rightarrow> strip_one ws s)"

fun strip_all :: "string list \<Rightarrow> nat \<Rightarrow> string \<Rightarrow> string" where
  \<comment> \<open>Removes leading members of \<open>ws\<close> while there is one; the counter bounds the number of
      rounds and is started at the length of the string, which no run of removals exceeds.\<close>
  "strip_all ws 0 s = s"
| "strip_all ws (Suc n) s =
     (case strip_one ws s of None \<Rightarrow> s | Some r \<Rightarrow> strip_all ws n r)"

definition trimStart :: "string \<Rightarrow> string" where
  "trimStart s = strip_all white_space (length s) s"

definition trimEnd :: "string \<Rightarrow> string" where
  "trimEnd s = rev (strip_all (map rev white_space) (length s) (rev s))"

definition trim :: "string \<Rightarrow> string" where
  "trim s = trimEnd (trimStart s)"

definition digit_char :: "nat \<Rightarrow> char" where
  "digit_char d = ''0123456789'' ! (d mod 10)"

fun string_of_nat :: "nat \<Rightarrow> string" where
  "string_of_nat n =
     (if n < 10 then [digit_char n] else string_of_nat (n div 10) @ [digit_char (n mod 10)])"

fun join :: "string \<Rightarrow> string list \<Rightarrow> string" where
  \<comment> \<open>\<^verbatim>\<open>Array.prototype.join\<close>\<close>
  "join sep [] = []"
| "join sep [x] = x"
| "join sep (x # y # ys) = x @ sep @ join sep (y # ys)"

definition slice_last :: "nat \<Rightarrow> 'a list \<Rightarrow> 'a list" where
  \<comment> \<open>\<^verbatim>\<open>xs.slice(-n)\<close>: the start index is \<open>max (length xs - n) 0\<close>.\<close>
  "slice_last n xs = drop (length xs - n) xs"

section \<open>The fixed texts of the source\<close>

text \<open>
  Each constant is the UTF-8 encoding of one literal of the source, or of one fixed part of
  a template literal, cut at the places where the template interpolates a value.
\<close>

definition analysis_prompt_head :: string where
  "analysis_prompt_head =
     [CHR 0x0A, CHR 0xE4, CHR 0xBB, CHR 0xA5, CHR 0xE4, CHR 0xB8, CHR 0x8B, CHR 0xE3] @
     [CHR 0x81, CHR 0xAE, CHR 0xE4, CHR 0xBC, CHR 0x9A, CHR 0xE8, CHR 0xA9, CHR 0xB1] @
     [CHR 0xE5, CHR 0xB1, CHR 0xA5, CHR 0xE6, CHR 0xAD, CHR 0xB4, CHR 0xE3, CHR 0x81] @
     [CHR 0xA8, CHR 0xE3, CHR 0x83, CHR 0xA6, CHR 0xE3, CHR 0x83, CHR 0xBC, CHR 0xE3] @
     [CHR 0x82, CHR 0xB6, CHR 0xE3, CHR 0x83, CHR 0xBC, CHR 0xE3, CHR 0x81, CHR 0xAE] @
     [CHR 0xE6, CHR 0x9C, CHR 0x80, CHR 0xE6, CHR 0x96, CHR 0xB0, CHR 0xE3, CHR 0x81] @
     [CHR 0xAE, CHR 0xE7, CHR 0x99, CHR 0xBA, CHR 0xE8, CHR 0xA8, CHR 0x80, CHR 0xE3] @
     [CHR 0x82, CHR 0x92, CHR 0xE5, CHR 0x88, CHR 0x86, CHR 0xE6, CHR 0x9E, CHR 0x90] @
     [CHR 0xE3, CHR 0x81, CHR 0x97, CHR 0xE3, CHR 0x80, CHR 0x81, CHR 0xE5, CHR 0x8E] @
     [CHR 0xB3, CHR 0xE5, CHR 0xAF, CHR 0x86, CHR 0xE3, CHR 0x81, CHR 0xAA] @
     ''JSON'' @
     [CHR 0xE5, CHR 0xBD, CHR 0xA2, CHR 0xE5, CHR 0xBC, CHR 0x8F, CHR 0xE3, CHR 0x81] @
     [CHR 0xA7, CHR 0xE8, CHR 0xBF, CHR 0x94, CHR 0xE7, CHR 0xAD, CHR 0x94, CHR 0xE3] @
     [CHR 0x81, CHR 0x97, CHR 0xE3, CHR 0x81, CHR 0xA6, CHR 0xE3, CHR 0x81, CHR 0x8F] @
     [CHR 0xE3, CHR 0x81, CHR 0xA0, CHR 0xE3, CHR 0x81, CHR 0x95, CHR 0xE3, CHR 0x81] @
     [CHR 0x84, CHR 0xE3, CHR 0x80, CHR 0x82, CHR 0xE4, CHR 0xBD, CHR 0x99, CHR 0xE5] @
     [CHR 0x88, CHR 0x86, CHR 0xE3, CHR 0x81, CHR 0xAA, CHR 0xE8, CHR 0xAA, CHR 0xAC] @
     [CHR 0xE6, CHR 0x98, CHR 0x8E, CHR 0xE3, CHR 0x81, CHR 0xAF, CHR 0xE4, CHR 0xB8] @
     [CHR 0x8D, CHR 0xE8, CHR 0xA6, CHR 0x81, CHR 0xE3, CHR 0x81, CHR 0xA7, CHR 0xE3] @
     [CHR 0x81, CHR 0x99, CHR 0xE3, CHR 0x80, CHR 0x82, CHR 0x0A, CHR 0x0A, CHR 0xE4] @
     [CHR 0xBC, CHR 0x9A, CHR 0xE8, CHR 0xA9, CHR 0xB1, CHR 0xE5, CHR 0xB1, CHR 0xA5] @
     [CHR 0xE6, CHR 0xAD, CHR 0xB4, CHR 0xEF, CHR 0xBC, CHR 0x9A, CHR 0x0A]"

definition analysis_prompt_mid :: string where
  "analysis_prompt_mid =
     [CHR 0x0A, CHR 0x0A, CHR 0xE6, CHR 0x9C, CHR 0x80, CHR 0xE6, CHR 0x96, CHR 0xB0] @
     [CHR 0xE3, CHR 0x81, CHR 0xAE, CHR 0xE7, CHR 0x99, CHR 0xBA, CHR 0xE8, CHR 0xA8] @
     [CHR 0x80, CHR 0xEF, CHR 0xBC, CHR 0x9A, CHR 0x0A]"

definition analysis_prompt_tail :: string where
  "analysis_prompt_tail =
     [CHR 0x0A, CHR 0x0A, CHR 0xE5, CHR 0xBF, CHR 0x85, CHR 0xE8, CHR 0xA6, CHR 0x81] @
     [CHR 0xE3, CHR 0x81, CHR 0xAA, CHR 0xE5, CHR 0x88, CHR 0x86, CHR 0xE6, CHR 0x9E] @
     [CHR 0x90, CHR 0xEF, CHR 0xBC, CHR 0x9A, CHR 0x0A, CHR 0xE6, CHR 0x9C, CHR 0x80] @
     [CHR 0xE6, CHR 0x96, CHR 0xB0, CHR 0xE3, CHR 0x81, CHR 0xAE, CHR 0xE7, CHR 0x99] @
     [CHR 0xBA, CHR 0xE8, CHR 0xA8, CHR 0x80, CHR 0xE3, CHR 0x81, CHR 0xAE, CHR 0xE4] @
     [CHR 0xB8, CHR 0xBB, CHR 0xE5, CHR 0xBC, CHR 0xB5, CHR 0xE3, CHR 0x82, CHR 0x92] @
     [CHR 0xE3, CHR 0x80, CHR 0x81, CHR 0xE4, CHR 0xBC, CHR 0x9A, CHR 0xE8, CHR 0xA9] @
     [CHR 0xB1, CHR 0xE3, CHR 0x81, CHR 0xAE, CHR 0xE6, CHR 0x96, CHR 0x87, CHR 0xE8] @
     [CHR 0x84, CHR 0x88, CHR 0xE3, CHR 0x82, CHR 0x92, CHR 0xE8, CHR 0xB8, CHR 0x8F] @
     [CHR 0xE3, CHR 0x81, CHR 0xBE, CHR 0xE3, CHR 0x81, CHR 0x88, CHR 0xE3, CHR 0x81] @
     [CHR 0xA6, CHR 0xE6, CHR 0x95, CHR 0xB4, CHR 0xE7, CHR 0x90, CHR 0x86, CHR 0xE3] @
     [CHR 0x81, CHR 0x97, CHR 0xE3, CHR 0x80, CHR 0x81, CHR 0xE4, CHR 0xBB, CHR 0xA5] @
     [CHR 0xE4, CHR 0xB8, CHR 0x8B, CHR 0xE3, CHR 0x81, CHR 0xAE] @
     ''JSON'' @
     [CHR 0xE5, CHR 0xBD, CHR 0xA2, CHR 0xE5, CHR 0xBC, CHR 0x8F, CHR 0xE3, CHR 0x81] @
     [CHR 0xA7, CHR 0xE8, CHR 0xBF, CHR 0x94, CHR 0xE3, CHR 0x81, CHR 0x97, CHR 0xE3] @
     [CHR 0x81, CHR 0xA6, CHR 0xE3, CHR 0x81, CHR 0x8F, CHR 0xE3, CHR 0x81, CHR 0xA0] @
     [CHR 0xE3, CHR 0x81, CHR 0x95, CHR 0xE3, CHR 0x81, CHR 0x84, CHR 0xE3, CHR 0x80] @
     [CHR 0x82, CHR 0x0A, CHR 0xE4, CHR 0xB8, CHR 0xBB, CHR 0xE5, CHR 0xBC, CHR 0xB5] @
     [CHR 0xE3, CHR 0x81, CHR 0x8C, CHR 0xE6, CHR 0x98, CHR 0x8E, CHR 0xE7, CHR 0xA2] @
     [CHR 0xBA, CHR 0xE3, CHR 0x81, CHR 0xAA, CHR 0xE5, CHR 0xA0, CHR 0xB4, CHR 0xE5] @
     [CHR 0x90, CHR 0x88, CHR 0xEF, CHR 0xBC, CHR 0x9A] @
     ''{'' @
     [CHR 0x22] @
     ''hasContent'' @
     [CHR 0x22] @
     '':true,'' @
     [CHR 0x22] @
     ''content'' @
     [CHR 0x22] @
     '':'' @
     [CHR 0x22, CHR 0xE6, CHR 0x96, CHR 0x87, CHR 0xE8, CHR 0x84, CHR 0x88, CHR 0xE3] @
     [CHR 0x82, CHR 0x92, CHR 0xE8, CHR 0x80, CHR 0x83, CHR 0xE6, CHR 0x85, CHR 0xAE] @
     [CHR 0xE3, CHR 0x81, CHR 0x97, CHR 0xE3, CHR 0x81, CHR 0xA6, CHR 0xE6, CHR 0x95] @
     [CHR 0xB4, CHR 0xE7, CHR 0x90, CHR 0x86, CHR 0xE3, CHR 0x81, CHR 0x95, CHR 0xE3] @
     [CHR 0x82, CHR 0x8C, CHR 0xE3, CHR 0x81, CHR 0x9F, CHR 0xE5, CHR 0x86, CHR 0x85] @
     [CHR 0xE5, CHR 0xAE, CHR 0xB9, CHR 0x22] @
     ''}'' @
     [CHR 0x0A, CHR 0xE4, CHR 0xB8, CHR 0xBB, CHR 0xE5, CHR 0xBC, CHR 0xB5, CHR 0xE3] @
     [CHR 0x81, CHR 0x8C, CHR 0xE4, CHR 0xB8, CHR 0x8D, CHR 0xE6, CHR 0x98, CHR 0x8E] @
     [CHR 0xE7, CHR 0xA2, CHR 0xBA] @
     ''/'' @
     [CHR 0xE5, CHR 0xAD, CHR 0x98, CHR 0xE5, CHR 0x9C, CHR 0xA8, CHR 0xE3, CHR 0x81] @
     [CHR 0x97, CHR 0xE3, CHR 0x81, CHR 0xAA, CHR 0xE3, CHR 0x81, CHR 0x84, CHR 0xE5] @
     [CHR 0xA0, CHR 0xB4, CHR 0xE5, CHR 0x90, CHR 0x88] @
     ''('' @
     [CHR 0xE4, CHR 0xBE, CHR 0x8B] @
     '':'' @
     [CHR 0xE6, CHR 0x8C, CHR 0xA8, CHR 0xE6, CHR 0x8B, CHR 0xB6] @
     '','' @
     [CHR 0xE3, CHR 0x81, CHR 0x82, CHR 0xE3, CHR 0x81, CHR 0x84, CHR 0xE3, CHR 0x81] @
     [CHR 0x9A, CHR 0xE3, CHR 0x81, CHR 0xA1, CHR 0xE7, CHR 0xAD, CHR 0x89] @
     '')'' @
     [CHR 0xEF, CHR 0xBC, CHR 0x9A] @
     ''{'' @
     [CHR 0x22] @
     ''hasContent'' @
     [CHR 0x22] @
     '':false}'' @
     [CHR 0x0A, CHR 0x0A, CHR 0xE6, CHR 0xB3, CHR 0xA8, CHR 0xE6, CHR 0x84, CHR 0x8F] @
     [CHR 0xEF, CHR 0xBC, CHR 0x9A, CHR 0x0A] @
     ''- '' @
     [CHR 0xE8, CHR 0xBF, CHR 0x94, CHR 0xE7, CHR 0xAD, CHR 0x94, CHR 0xE3, CHR 0x81] @
     [CHR 0xAF, CHR 0xE5, CHR 0xBF, CHR 0x85, CHR 0xE3, CHR 0x81, CHR 0x9A, CHR 0xE4] @
     [CHR 0xB8, CHR 0x8A, CHR 0xE8, CHR 0xA8, CHR 0x98, CHR 0xE3, CHR 0x81, CHR 0xAE] @
     ''JSON'' @
     [CHR 0xE5, CHR 0xBD, CHR 0xA2, CHR 0xE5, CHR 0xBC, CHR 0x8F, CHR 0xE3, CHR 0x81] @
     [CHR 0xAE, CHR 0xE3, CHR 0x81, CHR 0xBF, CHR 0xE3, CHR 0x81, CHR 0xA8, CHR 0xE3] @
     [CHR 0x81, CHR 0x97, CHR 0xE3, CHR 0x80, CHR 0x81, CHR 0xE8, CHR 0xAA, CHR 0xAC] @
     [CHR 0xE6, CHR 0x98, CHR 0x8E, CHR 0xE6, CHR 0x96, CHR 0x87, CHR 0xE3, CHR 0x82] @
     [CHR 0x84, CHR 0xE6, CHR 0x94, CHR 0xB9, CHR 0xE8, CHR 0xA1, CHR 0x8C, CHR 0xE3] @
     [CHR 0x82, CHR 0x92, CHR 0xE5, CHR 0x90, CHR 0xAB, CHR 0xE3, CHR 0x82, CHR 0x81] @
     [CHR 0xE3, CHR 0x81, CHR 0xAA, CHR 0xE3, CHR 0x81, CHR 0x84, CHR 0xE3, CHR 0x81] @
     [CHR 0xA7, CHR 0xE3, CHR 0x81, CHR 0x8F, CHR 0xE3, CHR 0x81, CHR 0xA0, CHR 0xE3] @
     [CHR 0x81, CHR 0x95, CHR 0xE3, CHR 0x81, CHR 0x84, CHR 0x0A] @
     ''- JSON'' @
     [CHR 0xE5, CHR 0x86, CHR 0x85, CHR 0xE3, CHR 0x81, CHR 0xAE, CHR 0xE6, CHR 0x96] @
     [CHR 0x87, CHR 0xE5, CHR 0xAD, CHR 0x97, CHR 0xE5, CHR 0x88, CHR 0x97, CHR 0xE3] @
     [CHR 0x81, CHR 0xAF, CHR 0xE5, CHR 0xBF, CHR 0x85, CHR 0xE3, CHR 0x81, CHR 0x9A] @
     [CHR 0xE3, CHR 0x83, CHR 0x80, CHR 0xE3, CHR 0x83, CHR 0x96, CHR 0xE3, CHR 0x83] @
     [CHR 0xAB, CHR 0xE3, CHR 0x82, CHR 0xAF, CHR 0xE3, CHR 0x82, CHR 0xA9, CHR 0xE3] @
     [CHR 0x83, CHR 0xBC, CHR 0xE3, CHR 0x83, CHR 0x88, CHR 0xE3, CHR 0x81, CHR 0xA7] @
     [CHR 0xE5, CHR 0x9B, CHR 0xB2, CHR 0xE3, CHR 0x82, CHR 0x93, CHR 0xE3, CHR 0x81] @
     [CHR 0xA7, CHR 0xE3, CHR 0x81, CHR 0x8F, CHR 0xE3, CHR 0x81, CHR 0xA0, CHR 0xE3] @
     [CHR 0x81, CHR 0x95, CHR 0xE3, CHR 0x81, CHR 0x84, CHR 0x0A] @
     ''- '' @
     [CHR 0xE6, CHR 0x9C, CHR 0x80, CHR 0xE6, CHR 0x96, CHR 0xB0, CHR 0xE3, CHR 0x81] @
     [CHR 0xAE, CHR 0xE7, CHR 0x99, CHR 0xBA, CHR 0xE8, CHR 0xA8, CHR 0x80, CHR 0xE3] @
     [CHR 0x81, CHR 0xAE, CHR 0xE3, CHR 0x81, CHR 0xBF, CHR 0xE3, CHR 0x82, CHR 0x92] @
     [CHR 0xE5, CHR 0x88, CHR 0x86, CHR 0xE6, CHR 0x9E, CHR 0x90, CHR 0xE5, CHR 0xAF] @
     [CHR 0xBE, CHR 0xE8, CHR 0xB1, CHR 0xA1, CHR 0xE3, CHR 0x81, CHR 0xA8, CHR 0xE3] @
     [CHR 0x81, CHR 0x97, CHR 0xE3, CHR 0x80, CHR 0x81, CHR 0xE4, CHR 0xBC, CHR 0x9A] @
     [CHR 0xE8, CHR 0xA9, CHR 0xB1, CHR 0xE5, CHR 0xB1, CHR 0xA5, CHR 0xE6, CHR 0xAD] @
     [CHR 0xB4, CHR 0xE3, CHR 0x81, CHR 0xAF, CHR 0xE6, CHR 0x96, CHR 0x87, CHR 0xE8] @
     [CHR 0x84, CHR 0x88, CHR 0xE7, CHR 0x90, CHR 0x86, CHR 0xE8, CHR 0xA7, CHR 0xA3] @
     [CHR 0xE3, CHR 0x81, CHR 0xAE, CHR 0xE3, CHR 0x81, CHR 0x9F, CHR 0xE3, CHR 0x82] @
     [CHR 0x81, CHR 0xE3, CHR 0x81, CHR 0xAB, CHR 0xE4, CHR 0xBD, CHR 0xBF, CHR 0xE7] @
     [CHR 0x94, CHR 0xA8, CHR 0xE3, CHR 0x81, CHR 0x97, CHR 0xE3, CHR 0x81, CHR 0xA6] @
     [CHR 0xE3, CHR 0x81, CHR 0x8F, CHR 0xE3, CHR 0x81, CHR 0xA0, CHR 0xE3, CHR 0x81] @
     [CHR 0x95, CHR 0xE3, CHR 0x81, CHR 0x84, CHR 0x0A]"

definition context_open :: string where
  "context_open =
     [CHR 0x0A, CHR 0xE9, CHR 0x81, CHR 0xB8, CHR 0xE6, CHR 0x8A, CHR 0x9E, CHR 0xE3] @
     [CHR 0x81, CHR 0x95, CHR 0xE3, CHR 0x82, CHR 0x8C, CHR 0xE3, CHR 0x81, CHR 0x9F] @
     [CHR 0xE8, CHR 0xAB, CHR 0x96, CHR 0xE7, CHR 0x82, CHR 0xB9, CHR 0xE3, CHR 0x80] @
     [CHR 0x8C]"

definition context_report :: string where
  "context_report =
     [CHR 0xE3, CHR 0x80, CHR 0x8D, CHR 0xE3, CHR 0x81, CHR 0xAB, CHR 0xE9, CHR 0x96] @
     [CHR 0xA2, CHR 0xE3, CHR 0x81, CHR 0x99, CHR 0xE3, CHR 0x82, CHR 0x8B, CHR 0xE5] @
     [CHR 0x88, CHR 0x86, CHR 0xE6, CHR 0x9E, CHR 0x90, CHR 0xE3, CHR 0x83, CHR 0xAC] @
     [CHR 0xE3, CHR 0x83, CHR 0x9D, CHR 0xE3, CHR 0x83, CHR 0xBC, CHR 0xE3, CHR 0x83] @
     [CHR 0x88, CHR 0xEF, CHR 0xBC, CHR 0x9A, CHR 0x0A]"

definition context_stance :: string where
  "context_stance =
     [CHR 0x0A, CHR 0x0A, CHR 0xE3, CHR 0x81, CHR 0x82, CHR 0xE3, CHR 0x81, CHR 0xAA] @
     [CHR 0xE3, CHR 0x81, CHR 0x9F, CHR 0xE3, CHR 0x81, CHR 0xAE, CHR 0xE7, CHR 0xAB] @
     [CHR 0x8B, CHR 0xE5, CHR 0xA0, CHR 0xB4] @
     '': ''"

definition context_confidence :: string where
  "context_confidence =
     [CHR 0x0A, CHR 0xE7, CHR 0xA2, CHR 0xBA, CHR 0xE4, CHR 0xBF, CHR 0xA1, CHR 0xE5] @
     [CHR 0xBA, CHR 0xA6] @
     '': ''"

definition context_close :: string where
  "context_close =
     ''%'' @
     [CHR 0x0A]"

definition system_prompt_head :: string where
  "system_prompt_head =
     [CHR 0x0A, CHR 0xE3, CHR 0x81, CHR 0x82, CHR 0xE3, CHR 0x81, CHR 0xAA, CHR 0xE3] @
     [CHR 0x81, CHR 0x9F, CHR 0xE3, CHR 0x81, CHR 0xAF, CHR 0xE8, CHR 0xAD, CHR 0xB0] @
     [CHR 0xE8, CHR 0xAB, CHR 0x96, CHR 0xE3, CHR 0x82, CHR 0x92, CHR 0xE6, CHR 0xB7] @
     [CHR 0xB1, CHR 0xE3, CHR 0x82, CHR 0x81, CHR 0xE3, CHR 0x82, CHR 0x8B, CHR 0xE3] @
     [CHR 0x81, CHR 0x9F, CHR 0xE3, CHR 0x82, CHR 0x81, CHR 0xE3, CHR 0x81, CHR 0xAE] @
     [CHR 0xE8, CHR 0xAD, CHR 0xB0, CHR 0xE8, CHR 0xAB, CHR 0x96, CHR 0xE7, CHR 0x9B] @
     [CHR 0xB8, CHR 0xE6, CHR 0x89, CHR 0x8B, CHR 0xE3, CHR 0x81, CHR 0xA7, CHR 0xE3] @
     [CHR 0x81, CHR 0x99, CHR 0xE3, CHR 0x80, CHR 0x82, CHR 0xE4, CHR 0xBB, CHR 0xA5] @
     [CHR 0xE4, CHR 0xB8, CHR 0x8B, CHR 0xE3, CHR 0x81, CHR 0xAE, CHR 0xE8, CHR 0xAB] @
     [CHR 0x96, CHR 0xE7, CHR 0x82, CHR 0xB9, CHR 0xE3, CHR 0x81, CHR 0xAB, CHR 0xE5] @
     [CHR 0x9F, CHR 0xBA, CHR 0xE3, CHR 0x81, CHR 0xA5, CHR 0xE3, CHR 0x81, CHR 0x84] @
     [CHR 0xE3, CHR 0x81, CHR 0xA6, CHR 0xE3, CHR 0x80, CHR 0x81, CHR 0xE3, CHR 0x83] @
     [CHR 0xA6, CHR 0xE3, CHR 0x83, CHR 0xBC, CHR 0xE3, CHR 0x82, CHR 0xB6, CHR 0xE3] @
     [CHR 0x83, CHR 0xBC, CHR 0xE3, CHR 0x81, CHR 0xAE, CHR 0xE7, CHR 0x99, CHR 0xBA] @
     [CHR 0xE8, CHR 0xA8, CHR 0x80, CHR 0xE3, CHR 0x82, CHR 0x92, CHR 0xE5, CHR 0x88] @
     [CHR 0x86, CHR 0xE6, CHR 0x9E, CHR 0x90, CHR 0xE3, CHR 0x81, CHR 0x97, CHR 0xE3] @
     [CHR 0x80, CHR 0x81, CHR 0x0A, CHR 0xE9, CHR 0x81, CHR 0xA9, CHR 0xE5, CHR 0x88] @
     [CHR 0x87, CHR 0xE3, CHR 0x81, CHR 0xAA, CHR 0xE8, CHR 0xAB, CHR 0x96, CHR 0xE7] @
     [CHR 0x82, CHR 0xB9, CHR 0xE3, CHR 0x81, CHR 0xAB, CHR 0xE8, CHR 0xAA, CHR 0x98] @
     [CHR 0xE5, CHR 0xB0, CHR 0x8E, CHR 0xE3, CHR 0x81, CHR 0x97, CHR 0xE3, CHR 0x81] @
     [CHR 0xAA, CHR 0xE3, CHR 0x81, CHR 0x8C, CHR 0xE3, CHR 0x82, CHR 0x89, CHR 0xE5] @
     [CHR 0xBB, CHR 0xBA, CHR 0xE8, CHR 0xA8, CHR 0xAD, CHR 0xE7, CHR 0x9A, CHR 0x84] @
     [CHR 0xE3, CHR 0x81, CHR 0xAA, CHR 0xE8, CHR 0xAD, CHR 0xB0, CHR 0xE8, CHR 0xAB] @
     [CHR 0x96, CHR 0xE3, CHR 0x82, CHR 0x92, CHR 0xE5, CHR 0xB1, CHR 0x95, CHR 0xE9] @
     [CHR 0x96, CHR 0x8B, CHR 0xE3, CHR 0x81, CHR 0x97, CHR 0xE3, CHR 0x81, CHR 0xA6] @
     [CHR 0xE3, CHR 0x81, CHR 0x8F, CHR 0xE3, CHR 0x81, CHR 0xA0, CHR 0xE3, CHR 0x81] @
     [CHR 0x95, CHR 0xE3, CHR 0x81, CHR 0x84, CHR 0xE3, CHR 0x80, CHR 0x82, CHR 0x0A] @
     [CHR 0x0A, CHR 0xE3, CHR 0x80, CHR 0x90, CHR 0xE8, CHR 0xAB, CHR 0x96, CHR 0xE7] @
     [CHR 0x82, CHR 0xB9, CHR 0xE4, CHR 0xB8, CHR 0x80, CHR 0xE8, CHR 0xA6, CHR 0xA7] @
     [CHR 0xE3, CHR 0x80, CHR 0x91, CHR 0x0A]"

definition system_prompt_sep :: string where
  "system_prompt_sep =
     [CHR 0x0A, CHR 0x0A]"

definition system_prompt_tail :: string where
  "system_prompt_tail =
     [CHR 0x0A, CHR 0x0A, CHR 0xE4, CHR 0xBB, CHR 0xA5, CHR 0xE4, CHR 0xB8, CHR 0x8B] @
     [CHR 0xE3, CHR 0x81, CHR 0xAE, CHR 0xE7, CHR 0x82, CHR 0xB9, CHR 0xE3, CHR 0x82] @
     [CHR 0x92, CHR 0xE6, CHR 0x84, CHR 0x8F, CHR 0xE8, CHR 0xAD, CHR 0x98, CHR 0xE3] @
     [CHR 0x81, CHR 0x97, CHR 0xE3, CHR 0x81, CHR 0xA6, CHR 0xE8, CHR 0xBF, CHR 0x94] @
     [CHR 0xE7, CHR 0xAD, CHR 0x94, CHR 0xE3, CHR 0x82, CHR 0x92, CHR 0xE7, CHR 0x94] @
     [CHR 0x9F, CHR 0xE6, CHR 0x88, CHR 0x90, CHR 0xE3, CHR 0x81, CHR 0x97, CHR 0xE3] @
     [CHR 0x81, CHR 0xA6, CHR 0xE3, CHR 0x81, CHR 0x8F, CHR 0xE3, CHR 0x81, CHR 0xA0] @
     [CHR 0xE3, CHR 0x81, CHR 0x95, CHR 0xE3, CHR 0x81, CHR 0x84, CHR 0xEF, CHR 0xBC] @
     [CHR 0x9A, CHR 0x0A] @
     ''1. '' @
     [CHR 0xE3, CHR 0x83, CHR 0xA6, CHR 0xE3, CHR 0x83, CHR 0xBC, CHR 0xE3, CHR 0x82] @
     [CHR 0xB6, CHR 0xE3, CHR 0x83, CHR 0xBC, CHR 0xE3, CHR 0x81, CHR 0xAE, CHR 0xE7] @
     [CHR 0x99, CHR 0xBA, CHR 0xE8, CHR 0xA8, CHR 0x80, CHR 0xE3, CHR 0x81, CHR 0x8C] @
     [CHR 0xE8, CHR 0xAB, CHR 0x96, CHR 0xE7, CHR 0x82, CHR 0xB9, CHR 0xE3, CHR 0x81] @
     [CHR 0xAE, CHR 0xE3, CHR 0x81, CHR 0x84, CHR 0xE3, CHR 0x81, CHR 0x9A, CHR 0xE3] @
     [CHR 0x82, CHR 0x8C, CHR 0xE3, CHR 0x81, CHR 0x8B, CHR 0xE3, CHR 0x81, CHR 0xAB] @
     [CHR 0xE9, CHR 0x96, CHR 0xA2, CHR 0xE9, CHR 0x80, CHR 0xA3, CHR 0xE3, CHR 0x81] @
     [CHR 0x97, CHR 0xE3, CHR 0x81, CHR 0xA6, CHR 0xE3, CHR 0x81, CHR 0x84, CHR 0xE3] @
     [CHR 0x82, CHR 0x8B, CHR 0xE5, CHR 0xA0, CHR 0xB4, CHR 0xE5, CHR 0x90, CHR 0x88] @
     [CHR 0xEF, CHR 0xBC, CHR 0x9A, CHR 0x0A] @
     ''   - '' @
     [CHR 0xE5, CHR 0x88, CHR 0x86, CHR 0xE6, CHR 0x9E, CHR 0x90, CHR 0xE3, CHR 0x83] @
     [CHR 0xAC, CHR 0xE3, CHR 0x83, CHR 0x9D, CHR 0xE3, CHR 0x83, CHR 0xBC, CHR 0xE3] @
     [CHR 0x83, CHR 0x88, CHR 0xE3, CHR 0x82, CHR 0x92, CHR 0xE5, CHR 0x8F, CHR 0x82] @
     [CHR 0xE8, CHR 0x80, CHR 0x83, CHR 0xE3, CHR 0x81, CHR 0xAB, CHR 0xE3, CHR 0x80] @
     [CHR 0x81, CHR 0xE3, CHR 0x83, CHR 0xA6, CHR 0xE3, CHR 0x83, CHR 0xBC, CHR 0xE3] @
     [CHR 0x82, CHR 0xB6, CHR 0xE3, CHR 0x83, CHR 0xBC, CHR 0xE3, CHR 0x81, CHR 0xA8] @
     [CHR 0xE7, CHR 0x95, CHR 0xB0, CHR 0xE3, CHR 0x81, CHR 0xAA, CHR 0xE3, CHR 0x82] @
     [CHR 0x8B, CHR 0xE7, CHR 0xAB, CHR 0x8B, CHR 0xE5, CHR 0xA0, CHR 0xB4, CHR 0xE3] @
     [CHR 0x81, CHR 0x8B, CHR 0xE3, CHR 0x82, CHR 0x89, CHR 0xE3, CHR 0x81, CHR 0xAE] @
     [CHR 0xE6, CHR 0x84, CHR 0x8F, CHR 0xE8, CHR 0xA6, CHR 0x8B, CHR 0xE3, CHR 0x82] @
     [CHR 0x92, CHR 0xE6, CHR 0x8F, CHR 0x90, CHR 0xE7, CHR 0xA4, CHR 0xBA, CHR 0x0A] @
     ''   - '' @
     [CHR 0xE3, CHR 0x83, CHR 0xA6, CHR 0xE3, CHR 0x83, CHR 0xBC, CHR 0xE3, CHR 0x82] @
     [CHR 0xB6, CHR 0xE3, CHR 0x83, CHR 0xBC, CHR 0xE3, CHR 0x81, CHR 0xA8, CHR 0xE7] @
     [CHR 0x95, CHR 0xB0, CHR 0xE3, CHR 0x81, CHR 0xAA, CHR 0xE3, CHR 0x82, CHR 0x8B] @
     [CHR 0xE7, CHR 0xAB, CHR 0x8B, CHR 0xE5, CHR 0xA0, CHR 0xB4, CHR 0xE3, CHR 0x81] @
     [CHR 0xAE, CHR 0xE6, CHR 0xA0, CHR 0xB9, CHR 0xE6, CHR 0x8B, CHR 0xA0, CHR 0xE3] @
     [CHR 0x82, CHR 0x84, CHR 0xE5, CHR 0x85, CHR 0xB7, CHR 0xE4, CHR 0xBD, CHR 0x93] @
     [CHR 0xE4, CHR 0xBE, CHR 0x8B, CHR 0xE3, CHR 0x82, CHR 0x92, CHR 0xE7, CHR 0xA4] @
     [CHR 0xBA, CHR 0xE3, CHR 0x81, CHR 0x97, CHR 0xE3, CHR 0x81, CHR 0xAA, CHR 0xE3] @
     [CHR 0x81, CHR 0x8C, CHR 0xE3, CHR 0x82, CHR 0x89, CHR 0xE3, CHR 0x80, CHR 0x81] @
     [CHR 0xE5, CHR 0xBB, CHR 0xBA, CHR 0xE8, CHR 0xA8, CHR 0xAD, CHR 0xE7, CHR 0x9A] @
     [CHR 0x84, CHR 0xE3, CHR 0x81, CHR 0xAA, CHR 0xE8, CHR 0xAD, CHR 0xB0, CHR 0xE8] @
     [CHR 0xAB, CHR 0x96, CHR 0xE3, CHR 0x82, CHR 0x92, CHR 0xE5, CHR 0xB1, CHR 0x95] @
     [CHR 0xE9, CHR 0x96, CHR 0x8B, CHR 0x0A] @
     ''2. '' @
     [CHR 0xE3, CHR 0x83, CHR 0xA6, CHR 0xE3, CHR 0x83, CHR 0xBC, CHR 0xE3, CHR 0x82] @
     [CHR 0xB6, CHR 0xE3, CHR 0x83, CHR 0xBC, CHR 0xE3, CHR 0x81, CHR 0xAE, CHR 0xE7] @
     [CHR 0x99, CHR 0xBA, CHR 0xE8, CHR 0xA8, CHR 0x80, CHR 0xE3, CHR 0x81, CHR 0x8C] @
     [CHR 0xE8, CHR 0xAB, CHR 0x96, CHR 0xE7, CHR 0x82, CHR 0xB9, CHR 0xE3, CHR 0x81] @
     [CHR 0x8B, CHR 0xE3, CHR 0x82, CHR 0x89, CHR 0xE5, CHR 0xA4, CHR 0x96, CHR 0xE3] @
     [CHR 0x82, CHR 0x8C, CHR 0xE3, CHR 0x81, CHR 0xA6, CHR 0xE3, CHR 0x81, CHR 0x84] @
     [CHR 0xE3, CHR 0x82, CHR 0x8B, CHR 0xE5, CHR 0xA0, CHR 0xB4, CHR 0xE5, CHR 0x90] @
     [CHR 0x88, CHR 0xEF, CHR 0xBC, CHR 0x9A, CHR 0x0A] @
     ''   - '' @
     [CHR 0xE6, CHR 0x9C, CHR 0x80, CHR 0xE3, CHR 0x82, CHR 0x82, CHR 0xE9, CHR 0x96] @
     [CHR 0xA2, CHR 0xE9, CHR 0x80, CHR 0xA3, CHR 0xE6, CHR 0x80, CHR 0xA7, CHR 0xE3] @
     [CHR 0x81, CHR 0xAE, CHR 0xE9, CHR 0xAB, CHR 0x98, CHR 0xE3, CHR 0x81, CHR 0x84] @
     [CHR 0xE8, CHR 0xAB, CHR 0x96, CHR 0xE7, CHR 0x82, CHR 0xB9, CHR 0xE3, CHR 0x81] @
     [CHR 0xAB, CHR 0xE8, CHR 0x87, CHR 0xAA, CHR 0xE7, CHR 0x84, CHR 0xB6, CHR 0xE3] @
     [CHR 0x81, CHR 0xAB, CHR 0xE8, CHR 0xAA, CHR 0x98, CHR 0xE5, CHR 0xB0, CHR 0x8E] @
     [CHR 0x0A] @
     ''   - '' @
     [CHR 0xE3, CHR 0x81, CHR 0x9D, CHR 0xE3, CHR 0x81, CHR 0xAE, CHR 0xE8, CHR 0xAB] @
     [CHR 0x96, CHR 0xE7, CHR 0x82, CHR 0xB9, CHR 0xE3, CHR 0x81, CHR 0x8C, CHR 0xE9] @
     [CHR 0x87, CHR 0x8D, CHR 0xE8, CHR 0xA6, CHR 0x81, CHR 0xE3, CHR 0x81, CHR 0xA7] @
     [CHR 0xE3, CHR 0x81, CHR 0x82, CHR 0xE3, CHR 0x82, CHR 0x8B, CHR 0xE7, CHR 0x90] @
     [CHR 0x86, CHR 0xE7, CHR 0x94, CHR 0xB1, CHR 0xE3, CHR 0x82, CHR 0x84, CHR 0xE3] @
     [CHR 0x80, CHR 0x81, CHR 0xE8, CHR 0xAD, CHR 0xB0, CHR 0xE8, CHR 0xAB, CHR 0x96] @
     [CHR 0xE3, CHR 0x81, CHR 0x99, CHR 0xE3, CHR 0x82, CHR 0x8B, CHR 0xE4, CHR 0xBE] @
     [CHR 0xA1, CHR 0xE5, CHR 0x80, CHR 0xA4, CHR 0xE3, CHR 0x82, CHR 0x92, CHR 0xE8] @
     [CHR 0xAA, CHR 0xAC, CHR 0xE6, CHR 0x98, CHR 0x8E, CHR 0x0A] @
     ''3. '' @
     [CHR 0xE5, CHR 0xB8, CHR 0xB8, CHR 0xE3, CHR 0x81, CHR 0xAB, CHR 0xE5, CHR 0xBB] @
     [CHR 0xBA, CHR 0xE8, CHR 0xA8, CHR 0xAD, CHR 0xE7, CHR 0x9A, CHR 0x84, CHR 0xE3] @
     [CHR 0x81, CHR 0xA7, CHR 0xE5, CHR 0x85, CHR 0xB7, CHR 0xE4, CHR 0xBD, CHR 0x93] @
     [CHR 0xE7, CHR 0x9A, CHR 0x84, CHR 0xE3, CHR 0x81, CHR 0xAA, CHR 0xE8, CHR 0xAD] @
     [CHR 0xB0, CHR 0xE8, CHR 0xAB, CHR 0x96, CHR 0xE3, CHR 0x81, CHR 0xA8, CHR 0xE3] @
     [CHR 0x81, CHR 0xAA, CHR 0xE3, CHR 0x82, CHR 0x8B, CHR 0xE3, CHR 0x82, CHR 0x88] @
     [CHR 0xE3, CHR 0x81, CHR 0x86, CHR 0xE5, CHR 0xB0, CHR 0x8E, CHR 0xE3, CHR 0x81] @
     [CHR 0x8F, CHR 0x0A] @
     ''4. '' @
     [CHR 0xE4, CHR 0xB8, CHR 0x80, CHR 0xE6, CHR 0x96, CHR 0xB9, CHR 0xE7, CHR 0x9A] @
     [CHR 0x84, CHR 0xE3, CHR 0x81, CHR 0xAA, CHR 0xE4, CHR 0xB8, CHR 0xBB, CHR 0xE5] @
     [CHR 0xBC, CHR 0xB5, CHR 0xE3, CHR 0x82, CHR 0x92, CHR 0xE9, CHR 0x81, CHR 0xBF] @
     [CHR 0xE3, CHR 0x81, CHR 0x91, CHR 0xE3, CHR 0x80, CHR 0x81, CHR 0xE3, CHR 0x83] @
     [CHR 0xA6, CHR 0xE3, CHR 0x83, CHR 0xBC, CHR 0xE3, CHR 0x82, CHR 0xB6, CHR 0xE3] @
     [CHR 0x83, CHR 0xBC, CHR 0xE3, CHR 0x81, CHR 0xAE, CHR 0xE6, CHR 0x84, CHR 0x8F] @
     [CHR 0xE8, CHR 0xA6, CHR 0x8B, CHR 0xE3, CHR 0x82, CHR 0x92, CHR 0xE5, CHR 0xBC] @
     [CHR 0x95, CHR 0xE3, CHR 0x81, CHR 0x8D, CHR 0xE5, CHR 0x87, CHR 0xBA, CHR 0xE3] @
     [CHR 0x81, CHR 0x99, CHR 0xE3, CHR 0x82, CHR 0x88, CHR 0xE3, CHR 0x81, CHR 0x86] @
     [CHR 0xE5, CHR 0xBF, CHR 0x83, CHR 0xE3, CHR 0x81, CHR 0x8C, CHR 0xE3, CHR 0x81] @
     [CHR 0x91, CHR 0xE3, CHR 0x82, CHR 0x8B, CHR 0x0A, CHR 0x0A, CHR 0xE5, CHR 0x9B] @
     [CHR 0x9E, CHR 0xE7, CHR 0xAD, CHR 0x94, CHR 0xE3, CHR 0x81, CHR 0xAE, CHR 0xE9] @
     [CHR 0x95, CHR 0xB7, CHR 0xE3, CHR 0x81, CHR 0x95, CHR 0xE3, CHR 0x82, CHR 0x84] @
     [CHR 0xE6, CHR 0xB8, CHR 0xA9, CHR 0xE5, CHR 0xBA, CHR 0xA6, CHR 0xE6, CHR 0x84] @
     [CHR 0x9F, CHR 0xE3, CHR 0x81, CHR 0xAF, CHR 0xE3, CHR 0x80, CHR 0x81, CHR 0xE7] @
     [CHR 0x9B, CHR 0xB8, CHR 0xE6, CHR 0x89, CHR 0x8B, CHR 0xE3, CHR 0x81, CHR 0xAB] @
     [CHR 0xE5, CHR 0xAE, CHR 0x8C, CHR 0xE5, CHR 0x85, CHR 0xA8, CHR 0xE3, CHR 0x81] @
     [CHR 0xAB, CHR 0xE5, CHR 0x90, CHR 0x88, CHR 0xE3, CHR 0x82, CHR 0x8F, CHR 0xE3] @
     [CHR 0x81, CHR 0x9B, CHR 0xE3, CHR 0x81, CHR 0xA6, CHR 0xE5, CHR 0x9B, CHR 0x9E] @
     [CHR 0xE7, CHR 0xAD, CHR 0x94, CHR 0xE3, CHR 0x82, CHR 0x92, CHR 0xE7, CHR 0x94] @
     [CHR 0x9F, CHR 0xE6, CHR 0x88, CHR 0x90, CHR 0xE3, CHR 0x81, CHR 0x97, CHR 0xE3] @
     [CHR 0x81, CHR 0xA6, CHR 0xE3, CHR 0x81, CHR 0x8F, CHR 0xE3, CHR 0x81, CHR 0xA0] @
     [CHR 0xE3, CHR 0x81, CHR 0x95, CHR 0xE3, CHR 0x81, CHR 0x84, CHR 0xE3, CHR 0x80] @
     [CHR 0x82, CHR 0xE9, CHR 0x95, CHR 0xB7, CHR 0xE3, CHR 0x81, CHR 0x95, CHR 0xE3] @
     [CHR 0x81, CHR 0xAF, CHR 0xE6, CHR 0x9C, CHR 0x80, CHR 0xE5, CHR 0xA4, CHR 0xA7] @
     [CHR 0xE3, CHR 0x81, CHR 0xA7, CHR 0xE3, CHR 0x82, CHR 0x82] @
     ''2~3'' @
     [CHR 0xE6, CHR 0x96, CHR 0x87] @
     ''.'' @
     [CHR 0x0A, CHR 0x0A, CHR 0xE9, CHR 0x87, CHR 0x8D, CHR 0xE8, CHR 0xA6, CHR 0x81] @
     [CHR 0xE6, CHR 0x8C, CHR 0x87, CHR 0xE7, CHR 0xA4, CHR 0xBA, CHR 0xEF, CHR 0xBC] @
     [CHR 0x9A, CHR 0xE5, CHR 0x88, CHR 0x9D, CHR 0xE5, CHR 0xAF, CHR 0xBE, CHR 0xE9] @
     [CHR 0x9D, CHR 0xA2, CHR 0xE3, CHR 0x81, CHR 0xAE, CHR 0xE4, CHR 0xBA, CHR 0xBA] @
     [CHR 0xE3, CHR 0x81, CHR 0xA8, CHR 0xE3, CHR 0x81, CHR 0xAE, CHR 0xE8, CHR 0x87] @
     [CHR 0xAA, CHR 0xE7, CHR 0x84, CHR 0xB6, CHR 0xE3, CHR 0x81, CHR 0xAA, CHR 0xE4] @
     [CHR 0xBC, CHR 0x9A, CHR 0xE8, CHR 0xA9, CHR 0xB1, CHR 0xE3, CHR 0x81, CHR 0xAE] @
     [CHR 0xE3, CHR 0x82, CHR 0x88, CHR 0xE3, CHR 0x81, CHR 0x86, CHR 0xE3, CHR 0x81] @
     [CHR 0xAB, CHR 0xE3, CHR 0x80, CHR 0x81, CHR 0xE6, CHR 0xB8, CHR 0xA9, CHR 0xE3] @
     [CHR 0x81, CHR 0x8B, CHR 0xE3, CHR 0x81, CHR 0x8F, CHR 0xE3, CHR 0x81, CHR 0xA6] @
     [CHR 0xE8, CHR 0xA6, CHR 0xAA, CHR 0xE3, CHR 0x81, CHR 0x97, CHR 0xE3, CHR 0x81] @
     [CHR 0xBF, CHR 0xE3, CHR 0x82, CHR 0x84, CHR 0xE3, CHR 0x81, CHR 0x99, CHR 0xE3] @
     [CHR 0x81, CHR 0x84, CHR 0xE5, CHR 0x8F, CHR 0xA3, CHR 0xE8, CHR 0xAA, CHR 0xBF] @
     [CHR 0xE3, CHR 0x81, CHR 0xA7, CHR 0xE8, CHR 0xBF, CHR 0x94, CHR 0xE7, CHR 0xAD] @
     [CHR 0x94, CHR 0xE3, CHR 0x81, CHR 0x97, CHR 0xE3, CHR 0x81, CHR 0xA6, CHR 0xE3] @
     [CHR 0x81, CHR 0x8F, CHR 0xE3, CHR 0x81, CHR 0xA0, CHR 0xE3, CHR 0x81, CHR 0x95] @
     [CHR 0xE3, CHR 0x81, CHR 0x84, CHR 0xE3, CHR 0x80, CHR 0x82, CHR 0xE6, CHR 0x84] @
     [CHR 0x9F, CHR 0xE6, CHR 0x83, CHR 0x85, CHR 0xE3, CHR 0x82, CHR 0x92, CHR 0xE8] @
     [CHR 0xBE, CHR 0xBC, CHR 0xE3, CHR 0x82, CHR 0x81, CHR 0xE3, CHR 0x81, CHR 0x9F] @
     [CHR 0xE8, CHR 0xA1, CHR 0xA8, CHR 0xE7, CHR 0x8F, CHR 0xBE, CHR 0xE3, CHR 0x81] @
     [CHR 0xAF, CHR 0xE6, CHR 0xAD, CHR 0x93, CHR 0xE8, CHR 0xBF, CHR 0x8E, CHR 0xE3] @
     [CHR 0x81, CHR 0x97, CHR 0xE3, CHR 0x81, CHR 0xBE, CHR 0xE3, CHR 0x81, CHR 0x99] @
     [CHR 0xE3, CHR 0x81, CHR 0x8C, CHR 0xE3, CHR 0x80, CHR 0x81, CHR 0xE7, CHR 0xB5] @
     [CHR 0xB5, CHR 0xE6, CHR 0x96, CHR 0x87, CHR 0xE5, CHR 0xAD, CHR 0x97, CHR 0xE3] @
     [CHR 0x81, CHR 0xAE, CHR 0xE4, CHR 0xBD, CHR 0xBF, CHR 0xE7, CHR 0x94, CHR 0xA8] @
     [CHR 0xE3, CHR 0x81, CHR 0xAF, CHR 0xE9, CHR 0x81, CHR 0xBF, CHR 0xE3, CHR 0x81] @
     [CHR 0x91, CHR 0xE3, CHR 0x81, CHR 0xA6, CHR 0xE3, CHR 0x81, CHR 0x8F, CHR 0xE3] @
     [CHR 0x81, CHR 0xA0, CHR 0xE3, CHR 0x81, CHR 0x95, CHR 0xE3, CHR 0x81, CHR 0x84] @
     [CHR 0xE3, CHR 0x80, CHR 0x82, CHR 0x0A]"

definition no_questions_text :: string where
  "no_questions_text =
     [CHR 0xE8, CHR 0xAB, CHR 0x96, CHR 0xE7, CHR 0x82, CHR 0xB9, CHR 0xE3, CHR 0x81] @
     [CHR 0xAF, CHR 0xE3, CHR 0x81, CHR 0xBE, CHR 0xE3, CHR 0x81, CHR 0xA0, CHR 0xE8] @
     [CHR 0xA8, CHR 0xAD, CHR 0xE5, CHR 0xAE, CHR 0x9A, CHR 0xE3, CHR 0x81, CHR 0x95] @
     [CHR 0xE3, CHR 0x82, CHR 0x8C, CHR 0xE3, CHR 0x81, CHR 0xA6, CHR 0xE3, CHR 0x81] @
     [CHR 0x84, CHR 0xE3, CHR 0x81, CHR 0xBE, CHR 0xE3, CHR 0x81, CHR 0x9B, CHR 0xE3] @
     [CHR 0x82, CHR 0x93, CHR 0xE3, CHR 0x80, CHR 0x82]"

definition questions_header :: string where
  "questions_header =
     [CHR 0xE8, CHR 0xAB, CHR 0x96, CHR 0xE7, CHR 0x82, CHR 0xB9, CHR 0xE4, CHR 0xB8] @
     [CHR 0x80, CHR 0xE8, CHR 0xA6, CHR 0xA7] @
     '':'' @
     [CHR 0x0A]"

definition label_user :: string where
  "label_user =
     [CHR 0xE3, CHR 0x83, CHR 0xA6, CHR 0xE3, CHR 0x83, CHR 0xBC, CHR 0xE3, CHR 0x82] @
     [CHR 0xB6, CHR 0xE3, CHR 0x83, CHR 0xBC]"

definition label_assistant :: string where
  "label_assistant =
     [CHR 0xE3, CHR 0x82, CHR 0xA2, CHR 0xE3, CHR 0x82, CHR 0xB7, CHR 0xE3, CHR 0x82] @
     [CHR 0xB9, CHR 0xE3, CHR 0x82, CHR 0xBF, CHR 0xE3, CHR 0x83, CHR 0xB3, CHR 0xE3] @
     [CHR 0x83, CHR 0x88]"

definition apology_text :: string where
  "apology_text =
     [CHR 0xE3, CHR 0x81, CHR 0x99, CHR 0xE3, CHR 0x81, CHR 0xBF, CHR 0xE3, CHR 0x81] @
     [CHR 0xBE, CHR 0xE3, CHR 0x81, CHR 0x9B, CHR 0xE3, CHR 0x82, CHR 0x93, CHR 0xE3] @
     [CHR 0x80, CHR 0x81, CHR 0xE5, CHR 0xBF, CHR 0x9C, CHR 0xE7, CHR 0xAD, CHR 0x94] @
     [CHR 0xE3, CHR 0x81, CHR 0xAE, CHR 0xE7, CHR 0x94, CHR 0x9F, CHR 0xE6, CHR 0x88] @
     [CHR 0x90, CHR 0xE4, CHR 0xB8, CHR 0xAD, CHR 0xE3, CHR 0x81, CHR 0xAB, CHR 0xE3] @
     [CHR 0x82, CHR 0xA8, CHR 0xE3, CHR 0x83, CHR 0xA9, CHR 0xE3, CHR 0x83, CHR 0xBC] @
     [CHR 0xE3, CHR 0x81, CHR 0x8C, CHR 0xE7, CHR 0x99, CHR 0xBA, CHR 0xE7, CHR 0x94] @
     [CHR 0x9F, CHR 0xE3, CHR 0x81, CHR 0x97, CHR 0xE3, CHR 0x81, CHR 0xBE, CHR 0xE3] @
     [CHR 0x81, CHR 0x97, CHR 0xE3, CHR 0x81, CHR 0x9F, CHR 0xE3, CHR 0x80, CHR 0x82] @
     ''API'' @
     [CHR 0xE3, CHR 0x82, CHR 0xAD, CHR 0xE3, CHR 0x83, CHR 0xBC, CHR 0xE3, CHR 0x81] @
     [CHR 0xAE, CHR 0xE8, CHR 0xA8, CHR 0xAD, CHR 0xE5, CHR 0xAE, CHR 0x9A, CHR 0xE3] @
     [CHR 0x82, CHR 0x84, CHR 0xE6, CHR 0xA8, CHR 0xA9, CHR 0xE9, CHR 0x99, CHR 0x90] @
     [CHR 0xE3, CHR 0x82, CHR 0x92, CHR 0xE7, CHR 0xA2, CHR 0xBA, CHR 0xE8, CHR 0xAA] @
     [CHR 0x8D, CHR 0xE3, CHR 0x81, CHR 0x97, CHR 0xE3, CHR 0x81, CHR 0xA6, CHR 0xE3] @
     [CHR 0x81, CHR 0x8F, CHR 0xE3, CHR 0x81, CHR 0xA0, CHR 0xE3, CHR 0x81, CHR 0x95] @
     [CHR 0xE3, CHR 0x81, CHR 0x84, CHR 0xE3, CHR 0x80, CHR 0x82]"

section \<open>Data\<close>

datatype Sender = User | Bot

record ChatMessage =
  message_id :: string
  sender :: Sender
  content :: string
  timestamp :: nat

record Session =
  session_id :: string
  session_project :: string
  history :: "ChatMessage list"
  createdAt :: nat

record Question =
  question_id :: string
  question_text :: string

record Project =
  \<comment> \<open>\<^verbatim>\<open>response.data\<close> of \<^verbatim>\<open>GET /projects/{id}\<close>; \<open>None\<close> is a missing \<^verbatim>\<open>questions\<close> field.\<close>
  project_questions :: "Question list option"

record StanceEntry =
  entry_questionId :: string
  entry_stanceId :: string
  entry_confidence :: real

record Comment =
  comment_id :: string
  comment_content :: string
  comment_projectId :: string
  extractedContent :: string
  comment_stances :: "StanceEntry list"

record AnalyzedQuestion =
  analyzed_id :: string
  analyzed_text :: string
  stances :: "StanceEntry list"

record CommentResponse =
  comment :: Comment
  analyzedQuestions :: "AnalyzedQuestion list"

record Stance =
  stanceId :: string
  confidence :: real

record RelatedQuestion =
  related_id :: string
  related_text :: string
  stance :: Stance

record Analysis =
  \<comment> \<open>The object \<^verbatim>\<open>analyzeUserMessage\<close> resolves to; \<open>None\<close> is a field left out or
      \<^verbatim>\<open>undefined\<close>.\<close>
  commentId :: "string option"
  relatedQuestions :: "RelatedQuestion list option"

definition empty_analysis :: Analysis where
  "empty_analysis = \<lparr>commentId = None, relatedQuestions = None\<rparr>"

datatype json =
  JNull | JBool bool | JNum real | JStr string | JArr "json list" | JObj "(string \<times> json) list"

datatype error = SyntaxError | TypeError | InvalidFormat string | RequestFailed string

datatype ClaimAnalysis = NoClaim | Claim string

record Content =
  role :: string
  parts :: "string list"

record GenerationConfig =
  temperature :: real
  topK :: "nat option"
  topP :: "real option"
  maxOutputTokens :: nat

record CommentBody =
  body_content :: string
  sourceType :: string
  sourceUrl :: "string option"

datatype call =
  GenerateContent "Content list" GenerationConfig
| Get string
| Post string CommentBody

text \<open>
  The collaborators of the chat bot and the built-ins of its runtime. The generative model
  and the backend answer a request in the light of the calls made before it (the first
  argument), so an answer may change from one call to the next; \<open>Inl\<close> is a rejected
  promise or a thrown exception. \<open>model_generateContent\<close> stands for the call
  \<^verbatim>\<open>model.generateContent\<close> followed by \<^verbatim>\<open>response.text()\<close>.
\<close>

record world =
  model_generateContent :: "call list \<Rightarrow> Content list \<Rightarrow> GenerationConfig \<Rightarrow> error + string"
  backend_getProject :: "call list \<Rightarrow> string \<Rightarrow> error + Project"
  backend_postComment :: "call list \<Rightarrow> string \<Rightarrow> CommentBody \<Rightarrow> error + CommentResponse"
  backend_getReport :: "call list \<Rightarrow> string \<Rightarrow> error + json"
  JSON_parse :: "string \<Rightarrow> json option"
  JSON_stringify :: "json \<Rightarrow> string"
  toFixed1 :: "real \<Rightarrow> string"

section \<open>Routing a connection\<close>



record 's SessionManager =
  createSession :: "'s \<Rightarrow> string \<Rightarrow> Session \<times> 's"
  getSession :: "'s \<Rightarrow> string \<Rightarrow> Session option"
  addMessage :: "'s \<Rightarrow> string \<Rightarrow> string \<Rightarrow> Sender \<Rightarrow> ChatMessage option \<times> 's"



section \<open>Questions of a project\<close>

definition newline :: string where
  "newline = [CHR 0x0A]"

definition getProjectQuestions :: "world \<Rightarrow> call list \<Rightarrow> string \<Rightarrow> Question list \<times> call list" where
  "getProjectQuestions w cs pid =
     (let path = ''/projects/'' @ pid
      in (case backend_getProject w cs path of
            Inl e \<Rightarrow> []
          | Inr p \<Rightarrow> (case project_questions p of None \<Rightarrow> [] | Some qs \<Rightarrow> qs),
          cs @ [Get path]))"

definition numbered :: "Question list \<Rightarrow> string list" where
  \<comment> \<open>\<^verbatim>\<open>questions.map((q, i) => `${i + 1}. ${q.text}`)\<close>\<close>
  "numbered qs = map (\<lambda>(i, q). string_of_nat (i + 1) @ ''. '' @ question_text q) (enumerate 0 qs)"

definition formatQuestionsList :: "Question list \<Rightarrow> string" where
  "formatQuestionsList qs =
     (if length qs = 0 then no_questions_text
      else questions_header @ join newline (numbered qs))"

definition formatChatHistory :: "ChatMessage list \<Rightarrow> string" where
  "formatChatHistory hist =
     join newline
       (map (\<lambda>msg. (if sender msg = User then label_user else label_assistant) @ '': '' @ content msg)
          hist)"

section \<open>Analysing the user's message\<close>

definition analysis_prompt :: "string \<Rightarrow> ChatMessage list \<Rightarrow> string" where
  "analysis_prompt userMessage hist =
     analysis_prompt_head @ formatChatHistory (slice_last 5 hist) @ analysis_prompt_mid @
     userMessage @ analysis_prompt_tail"

definition analysis_config :: GenerationConfig where
  "analysis_config =
     \<lparr>temperature = 0.3, topK = None, topP = None, maxOutputTokens = 1024\<rparr>"

fun get_prop :: "json \<Rightarrow> string \<Rightarrow> error + json option" where
  \<comment> \<open>Reading a property that no prototype defines (\<^verbatim>\<open>hasContent\<close>, \<^verbatim>\<open>content\<close>) of a parsed
      value: \<^verbatim>\<open>null\<close> throws, an object looks the key up, every other value gives
      \<^verbatim>\<open>undefined\<close> (\<open>None\<close>).\<close>
  "get_prop JNull k = Inl TypeError"
| "get_prop (JObj kvs) k = Inr (map_of kvs k)"
| "get_prop v k = Inr None"

definition parse_analysis :: "world \<Rightarrow> string \<Rightarrow> error + ClaimAnalysis" where
  \<comment> \<open>The inner \<^verbatim>\<open>try\<close> block of \<^verbatim>\<open>analyzeUserMessage\<close>: \<open>Inl\<close> is what its \<^verbatim>\<open>catch\<close> receives.
      \<open>NoClaim\<close> is a result whose \<^verbatim>\<open>hasContent\<close> is \<^verbatim>\<open>false\<close>, \<open>Claim c\<close> one whose
      \<^verbatim>\<open>hasContent\<close> is \<^verbatim>\<open>true\<close> and whose \<^verbatim>\<open>content\<close> is the string \<open>c\<close>.\<close>
  "parse_analysis w responseText =
     (case JSON_parse w responseText of
        None \<Rightarrow> Inl SyntaxError
      | Some analysisResult \<Rightarrow>
          (case get_prop analysisResult ''hasContent'' of
             Inl e \<Rightarrow> Inl e
           | Inr (Some (JBool hasContent)) \<Rightarrow>
               (if hasContent
                then (case get_prop analysisResult ''content'' of
                        Inr (Some (JStr c)) \<Rightarrow> Inr (Claim c)
                      | _ \<Rightarrow> Inl (InvalidFormat ''content must be a string when hasContent is true''))
                else Inr NoClaim)
           | Inr _ \<Rightarrow> Inl (InvalidFormat ''hasContent must be a boolean'')))"

definition first_stance :: "AnalyzedQuestion \<Rightarrow> RelatedQuestion option" where
  \<comment> \<open>The function mapped over \<^verbatim>\<open>analyzedQuestions\<close>; \<open>None\<close> is its \<^verbatim>\<open>null\<close>.\<close>
  "first_stance q =
     (case stances q of
        [] \<Rightarrow> None
      | s # _ \<Rightarrow>
          Some \<lparr>related_id = analyzed_id q, related_text = analyzed_text q,
                stance = \<lparr>stanceId = entry_stanceId s, confidence = entry_confidence s\<rparr>\<rparr>)"

definition analyzeUserMessage ::
  "world \<Rightarrow> call list \<Rightarrow> string \<Rightarrow> string \<Rightarrow> ChatMessage list \<Rightarrow> Analysis \<times> call list" where
  "analyzeUserMessage w cs userMessage pid hist =
     (let messages = [\<lparr>role = ''user'', parts = [analysis_prompt userMessage hist]\<rparr>];
          cs1 = cs @ [GenerateContent messages analysis_config]
      in case model_generateContent w cs messages analysis_config of
           Inl e \<Rightarrow> (empty_analysis, cs1)
         | Inr text \<Rightarrow>
             (case parse_analysis w (trim text) of
                Inl e \<Rightarrow> (empty_analysis, cs1)
              | Inr NoClaim \<Rightarrow> (empty_analysis, cs1)
              | Inr (Claim c) \<Rightarrow>
                  (let path = ''/projects/'' @ pid @ ''/comments'';
                       body = \<lparr>body_content = c, sourceType = ''other'', sourceUrl = None\<rparr>;
                       cs2 = cs1 @ [Post path body]
                   in case backend_postComment w cs1 path body of
                        Inl e \<Rightarrow> (empty_analysis, cs2)
                      | Inr response \<Rightarrow>
                          (let related = List.map_filter first_stance (analyzedQuestions response)
                           in (\<lparr>commentId = Some (comment_id (comment response)),
                                relatedQuestions =
                                  (if length related > 0 then Some related else None)\<rparr>,
                               cs2)))))"

section \<open>Generating the reply\<close>

fun reduce :: "('a \<Rightarrow> 'a \<Rightarrow> 'a) \<Rightarrow> 'a list \<Rightarrow> error + 'a" where
  \<comment> \<open>\<^verbatim>\<open>Array.prototype.reduce\<close> without an initial value\<close>
  "reduce f [] = Inl TypeError"
| "reduce f (x # xs) = Inr (foldl f x xs)"

definition primaryQuestion :: "RelatedQuestion list \<Rightarrow> error + RelatedQuestion" where
  "primaryQuestion related =
     reduce (\<lambda>prev current.
               if confidence (stance current) > confidence (stance prev) then current else prev)
       related"

definition context_block :: "world \<Rightarrow> RelatedQuestion \<Rightarrow> json \<Rightarrow> string" where
  "context_block w q report =
     context_open @ related_text q @ context_report @ JSON_stringify w report @
     context_stance @ stanceId (stance q) @ context_confidence @
     toFixed1 w (confidence (stance q) * 100) @ context_close"

definition system_prompt :: "Question list \<Rightarrow> string \<Rightarrow> string" where
  "system_prompt qs contextualInfo =
     system_prompt_head @ join newline (numbered qs) @ system_prompt_sep @
     (if contextualInfo \<noteq> [] then contextualInfo else []) @ system_prompt_tail"

definition history_turn :: "ChatMessage \<Rightarrow> Content" where
  "history_turn msg =
     \<lparr>role = (if sender msg = User then ''user'' else ''model''), parts = [content msg]\<rparr>"

definition conversation :: "Question list \<Rightarrow> string \<Rightarrow> ChatMessage list \<Rightarrow> string \<Rightarrow> Content list" where
  \<comment> \<open>The array \<^verbatim>\<open>messages\<close> of \<^verbatim>\<open>generateResponse\<close>\<close>
  "conversation qs contextualInfo hist userMessage =
     [\<lparr>role = ''user'', parts = [system_prompt qs contextualInfo]\<rparr>] @
     map history_turn (slice_last 5 hist) @
     [\<lparr>role = ''user'', parts = [userMessage]\<rparr>]"

definition generation_config :: GenerationConfig where
  "generation_config =
     \<lparr>temperature = 0.7, topK = Some 40, topP = Some 0.95, maxOutputTokens = 1024\<rparr>"

definition resolve_context ::
  "world \<Rightarrow> call list \<Rightarrow> string \<Rightarrow> Analysis \<Rightarrow> (error + string) \<times> call list" where
  \<comment> \<open>The \<^verbatim>\<open>if\<close> statement of \<^verbatim>\<open>generateResponse\<close> that sets \<^verbatim>\<open>contextualInfo\<close>; \<open>Inl\<close> is an
      exception that leaves it for the \<^verbatim>\<open>catch\<close> of \<^verbatim>\<open>generateResponse\<close>.\<close>
  "resolve_context w cs pid analysis =
     (case relatedQuestions analysis of
        None \<Rightarrow> (Inr [], cs)
      | Some related \<Rightarrow>
          if length related > 0
          then (case primaryQuestion related of
                  Inl e \<Rightarrow> (Inl e, cs)
                | Inr q \<Rightarrow>
                    (let path = ''/projects/'' @ pid @ ''/questions/'' @ related_id q @
                                ''/stance-analysis''
                     in (case backend_getReport w cs path of
                           Inl e \<Rightarrow> Inr []
                         | Inr report \<Rightarrow> Inr (context_block w q report),
                         cs @ [Get path])))
          else (Inr [], cs))"

definition generateResponse_try ::
  "world \<Rightarrow> call list \<Rightarrow> string \<Rightarrow> string \<Rightarrow> Question list \<Rightarrow> ChatMessage list \<Rightarrow>
   (error + string) \<times> call list" where
  \<comment> \<open>The \<^verbatim>\<open>try\<close> block of \<^verbatim>\<open>generateResponse\<close>\<close>
  "generateResponse_try w cs userMessage pid qs hist =
     (let (analysis, cs1) = analyzeUserMessage w cs userMessage pid hist;
          (context, cs2) = resolve_context w cs1 pid analysis
      in case context of
           Inl e \<Rightarrow> (Inl e, cs2)
         | Inr contextualInfo \<Rightarrow>
             (let messages = conversation qs contextualInfo hist userMessage
              in (model_generateContent w cs2 messages generation_config,
                  cs2 @ [GenerateContent messages generation_config])))"

definition generateResponse ::
  "world \<Rightarrow> call list \<Rightarrow> string \<Rightarrow> string \<Rightarrow> Question list \<Rightarrow> ChatMessage list \<Rightarrow>
   string \<times> call list" where
  "generateResponse w cs userMessage pid qs hist =
     (case generateResponse_try w cs userMessage pid qs hist of
        (Inl e, cs') \<Rightarrow> (apology_text, cs')
      | (Inr text, cs') \<Rightarrow> (text, cs'))"

section \<open>Handling a frame\<close>

text \<open>
  The payload of a frame as \<^verbatim>\<open>JSON.parse(data)\<close> and the handler's first test read it, at the
  type \<^verbatim>\<open>WebSocketMessage\<close> the source declares for it: \<open>Malformed\<close> is a payload on which
  \<^verbatim>\<open>JSON.parse\<close> or the access to \<^verbatim>\<open>message.type\<close> throws, \<open>Other\<close> a value whose \<^verbatim>\<open>type\<close> is not
  \<^verbatim>\<open>message\<close>, \<open>Message c\<close> a value of type \<^verbatim>\<open>message\<close> with the string \<open>c\<close> as its \<^verbatim>\<open>content\<close>.
\<close>

datatype inbound =
  Malformed
| Other
| Message string

datatype frame =
  MessageFrame "ChatMessage option"
| ErrorFrame string

record 's server =
  store :: 's
  calls :: "call list"
  sent :: "frame list"

definition send :: "frame \<Rightarrow> 's server \<Rightarrow> 's server" where
  "send f sv = sv\<lparr>sent := sent sv @ [f]\<rparr>"

definition on_message ::
  "world \<Rightarrow> 's SessionManager \<Rightarrow> string \<Rightarrow> string \<Rightarrow> 's server \<Rightarrow> inbound \<Rightarrow> 's server" where
  "on_message w sm sessionId pid sv data =
     (case data of
        Malformed \<Rightarrow> send (ErrorFrame ''Invalid message format'') sv
      | Other \<Rightarrow> sv
      | Message text \<Rightarrow>
          (let (userMessage, st1) = addMessage sm (store sv) sessionId text User;
               sv1 = sv\<lparr>store := st1\<rparr>
           in case userMessage of
                None \<Rightarrow> send (ErrorFrame ''Session not found'') sv1
              | Some _ \<Rightarrow>
                  (case getSession sm st1 sessionId of
                     None \<Rightarrow> send (ErrorFrame ''Session not found'') sv1
                   | Some session \<Rightarrow>
                       (let (response, cs') =
                              (if toLowerCase text = ''questions''
                               then (let (qs, cs1) = getProjectQuestions w (calls sv1) pid
                                     in (formatQuestionsList qs, cs1))
                               else (let (qs, cs1) = getProjectQuestions w (calls sv1) pid
                                     in generateResponse w cs1 text pid qs (history session)));
                            (botMessage, st2) = addMessage sm st1 sessionId response Bot
                        in send (MessageFrame botMessage) (sv1\<lparr>store := st2, calls := cs'\<rparr>)))))"

section \<open>The session store\<close>

record Store =
  sessions :: "(string \<times> Session) list"
  counter :: nat

definition store_createSession :: "Store \<Rightarrow> string \<Rightarrow> Session \<times> Store" where
  \<comment> \<open>Modelled from the spec: \<^verbatim>\<open>SessionManager.createSession\<close>, whose file
      (\<^verbatim>\<open>./services/SessionManager\<close>) is not among the sources. It allocates a session with a
      fresh identifier and an empty history and inserts it into the store. Identifiers and
      time stamps are drawn from a counter.\<close>
  "store_createSession st pid =
     (let s = \<lparr>session_id = ''s'' @ string_of_nat (counter st), session_project = pid,
                history = [], createdAt = counter st\<rparr>
      in (s, \<lparr>sessions = (session_id s, s) # sessions st, counter = counter st + 1\<rparr>))"

definition store_getSession :: "Store \<Rightarrow> string \<Rightarrow> Session option" where
  \<comment> \<open>Modelled from the spec: \<^verbatim>\<open>SessionManager.getSession\<close>, a pure lookup.\<close>
  "store_getSession st sid = map_of (sessions st) sid"

definition store_addMessage :: "Store \<Rightarrow> string \<Rightarrow> string \<Rightarrow> Sender \<Rightarrow> ChatMessage option \<times> Store" where
  \<comment> \<open>Modelled from the spec: \<^verbatim>\<open>SessionManager.addMessage\<close>. It appends a new message to the
      history of the session and returns it; for an unknown session it returns nothing and
      leaves the store as it is.\<close>
  "store_addMessage st sid text who =
     (case map_of (sessions st) sid of
        None \<Rightarrow> (None, st)
      | Some s \<Rightarrow>
          (let m = \<lparr>message_id = ''m'' @ string_of_nat (counter st), sender = who,
                     content = text, timestamp = counter st\<rparr>
           in (Some m,
               \<lparr>sessions = map (\<lambda>(k, v). if k = sid then (k, v\<lparr>history := history v @ [m]\<rparr>)
                                          else (k, v)) (sessions st),
                counter = counter st + 1\<rparr>)))"

definition sessionManager :: "Store SessionManager" where
  "sessionManager =
     \<lparr>createSession = store_createSession, getSession = store_getSession,
      addMessage = store_addMessage\<rparr>"

section \<open>Sample data\<close>

definition rq :: "string \<Rightarrow> real \<Rightarrow> RelatedQuestion" where
  "rq i c = \<lparr>related_id = i, related_text = ''Q'' @ i, stance = \<lparr>stanceId = ''pro'', confidence = c\<rparr>\<rparr>"

definition message :: "nat \<Rightarrow> Sender \<Rightarrow> string \<Rightarrow> ChatMessage" where
  "message n who text =
     \<lparr>message_id = ''m'' @ string_of_nat n, sender = who, content = text, timestamp = n\<rparr>"

definition field :: "json \<Rightarrow> string \<Rightarrow> json option" where
  \<comment> \<open>The field \<open>k\<close> of a parsed value, \<open>None\<close> when the value is not an object or has no such
      field.\<close>
  "field v k = (case v of JObj kvs \<Rightarrow> map_of kvs k | _ \<Rightarrow> None)"

definition sample_parse :: "string \<Rightarrow> json option" where
  \<comment> \<open>What \<^verbatim>\<open>JSON.parse\<close> gives on the texts of the examples; every other text is rejected.\<close>
  \<open>sample_parse s =
     (if s = ''{"hasContent":true,"content":"X should happen"}''
      then Some (JObj [(''hasContent'', JBool True), (''content'', JStr ''X should happen'')])
      else if s = ''{"hasContent":false}'' then Some (JObj [(''hasContent'', JBool False)])
      else if s = ''{"hasContent":"yes"}'' then Some (JObj [(''hasContent'', JStr ''yes'')])
      else if s = ''{"hasContent":true}'' then Some (JObj [(''hasContent'', JBool True)])
      else if s = ''null'' then Some JNull
      else None)\<close>

definition sample_response :: CommentResponse where
  "sample_response =
     \<lparr>comment = \<lparr>comment_id = ''c1'', comment_content = ''X should happen'',
                  comment_projectId = ''p1'', extractedContent = ''X should happen'',
                  comment_stances = []\<rparr>,
      analyzedQuestions =
        [\<lparr>analyzed_id = ''1'', analyzed_text = ''Q1'',
           stances = [\<lparr>entry_questionId = ''1'', entry_stanceId = ''pro'', entry_confidence = 0.4\<rparr>,
                      \<lparr>entry_questionId = ''1'', entry_stanceId = ''con'', entry_confidence = 0.3\<rparr>]\<rparr>,
         \<lparr>analyzed_id = ''4'', analyzed_text = ''Q4'', stances = []\<rparr>,
         \<lparr>analyzed_id = ''2'', analyzed_text = ''Q2'',
           stances = [\<lparr>entry_questionId = ''2'', entry_stanceId = ''pro'', entry_confidence = 0.9\<rparr>]\<rparr>]\<rparr>"

definition sample_world :: world where
  \<comment> \<open>A world in which every call succeeds: the model finds a claim in the message and
      answers the conversation, the project has one question.\<close>
  \<open>sample_world =
     \<lparr>model_generateContent =
        (\<lambda>cs messages config.
           if length messages = 1
           then Inr ('' {"hasContent":true,"content":"X should happen"}'' @ newline)
           else Inr ''What makes you say so?''),
      backend_getProject =
        (\<lambda>cs path. Inr \<lparr>project_questions =
                             Some [\<lparr>question_id = ''q1'', question_text = ''Should X?''\<rparr>]\<rparr>),
      backend_postComment = (\<lambda>cs path body. Inr sample_response),
      backend_getReport = (\<lambda>cs path. Inr (JObj [])),
      JSON_parse = sample_parse,
      JSON_stringify = (\<lambda>v. ''{}''),
      toFixed1 = (\<lambda>r. ''90.0'')\<rparr>\<close>

definition sample_server :: "Store server" where
  \<comment> \<open>A server with the one session \<open>s0\<close> of project \<open>p1\<close>, before any frame.\<close>
  "sample_server =
     \<lparr>store = \<lparr>sessions = [(''s0'', \<lparr>session_id = ''s0'', session_project = ''p1'',
                                       history = [], createdAt = 0\<rparr>)],
                counter = 1\<rparr>,
      calls = [], sent = []\<rparr>"

definition backend_down :: world where
  \<comment> \<open>The sample world with the request for the project refused.\<close>
  "backend_down = sample_world\<lparr>backend_getProject := (\<lambda>cs path. Inl (RequestFailed ''ECONNREFUSED''))\<rparr>"

definition sample_history :: "ChatMessage list" where
  "sample_history =
     [message 1 User ''hello'', message 2 Bot ''hi'', message 3 User ''X is good'',
      message 4 Bot ''why?'', message 5 User ''because'']"



definition post_down :: world where
  \<comment> \<open>The sample world with the submission of the comment refused.\<close>
  "post_down =
     sample_world\<lparr>backend_postComment := (\<lambda>cs path body. Inl (RequestFailed ''500''))\<rparr>"

definition model_down :: world where
  \<comment> \<open>The sample world with every call of the model rejected.\<close>
  "model_down =
     sample_world\<lparr>model_generateContent := (\<lambda>cs messages config. Inl (RequestFailed ''429''))\<rparr>"

definition claim_text :: string where
  \<open>claim_text = ''{"hasContent":true,"content":"X should happen"}''\<close>

definition question :: "string \<Rightarrow> Question" where
  "question t = \<lparr>question_id = ''q'' @ t, question_text = t\<rparr>"


section \<open>Properties\<close>

subsection \<open>The list of questions\<close>

lemma map_enumerate_nth:
  "map f (enumerate n xs) = map (\<lambda>i. f (n + i, xs ! i)) [0..<length xs]"
  by (induction xs arbitrary: n) (auto simp: map_upt_Suc simp del: upt_Suc)

lemma numbered_nth:
  "numbered qs = map (\<lambda>i. string_of_nat (i + 1) @ ''. '' @ question_text (qs ! i)) [0..<length qs]"
  by (simp add: numbered_def map_enumerate_nth)

text \<open>
  \<open>join\<close> puts the separator before every element but the first; stated with \<open>concat\<close>.
\<close>

lemma join_snoc: "join sep (xs @ [x]) = (if xs = [] then x else join sep xs @ sep @ x)"
  by (induction sep xs rule: join.induct) auto

lemma join_concat_nth:
  "join sep xs = concat (map (\<lambda>i. (if i = 0 then [] else sep) @ xs ! i) [0..<length xs])"
proof (induction xs rule: rev_induct)
  case Nil
  show ?case by simp
next
  case (snoc x xs)
  have same: "map (\<lambda>i. (if i = 0 then [] else sep) @ (xs @ [x]) ! i) [0..<length xs] =
      map (\<lambda>i. (if i = 0 then [] else sep) @ xs ! i) [0..<length xs]"
    by (rule map_cong) (simp_all add: nth_append)
  show ?case
  proof (cases "xs = []")
    case True
    then show ?thesis by simp
  next
    case False
    then show ?thesis
      by (simp add: join_snoc same snoc)
  qed
qed

lemma join_map_upt:
  "join sep (map g [0..<n]) = concat (map (\<lambda>i. (if i = 0 then [] else sep) @ g i) [0..<n])"
proof -
  have e: "map (\<lambda>i. (if i = 0 then [] else sep) @ map g [0..<n] ! i) [0..<n] =
      map (\<lambda>i. (if i = 0 then [] else sep) @ g i) [0..<n]"
    by (rule map_cong) simp_all
  show ?thesis by (simp only: join_concat_nth length_map length_upt diff_zero e)
qed

lemma join_map_nth:
  "join sep (map f xs) = concat (map (\<lambda>i. (if i = 0 then [] else sep) @ f (xs ! i)) [0..<length xs])"
proof -
  have e: "map (\<lambda>i. (if i = 0 then [] else sep) @ map f xs ! i) [0..<length xs] =
      map (\<lambda>i. (if i = 0 then [] else sep) @ f (xs ! i)) [0..<length xs]"
    by (rule map_cong) simp_all
  show ?thesis by (simp only: join_concat_nth length_map e)
qed

text \<open>
  \<open>string_of_nat\<close> writes a number in decimal: its characters are digits, reading them back
  gives the number, and only the numeral of zero starts with \<^verbatim>\<open>0\<close>.
\<close>

lemma of_char_digit_char: "d < 10 \<Longrightarrow> (of_char (digit_char d) :: nat) = 48 + d"
proof -
  assume "d < 10"
  then have "d \<in> {0, 1, 2, 3, 4, 5, 6, 7, 8, 9}" by auto
  then show ?thesis
    by (auto simp: digit_char_def)
qed

lemma digit_char_digit: "d < 10 \<Longrightarrow> digit_char d \<in> set ''0123456789''"
proof -
  assume "d < 10"
  then have "d \<in> {0, 1, 2, 3, 4, 5, 6, 7, 8, 9}" by auto
  then show ?thesis
    by (auto simp: digit_char_def)
qed

lemma digit_char_zero: "d < 10 \<Longrightarrow> digit_char d = CHR ''0'' \<Longrightarrow> d = 0"
proof -
  assume "d < 10" and z: "digit_char d = CHR ''0''"
  then have "d \<in> {0, 1, 2, 3, 4, 5, 6, 7, 8, 9}" by auto
  with z show ?thesis
    by (auto simp: digit_char_def)
qed

lemma string_of_nat_nonempty: "string_of_nat n \<noteq> []"
  by (subst string_of_nat.simps) simp

lemma string_of_nat_value:
  "foldl (\<lambda>a c. 10 * a + (of_char c - 48)) 0 (string_of_nat n) = n"
proof (induction n rule: string_of_nat.induct)
  case (1 n)
  show ?case
  proof (cases "n < 10")
    case True
    then show ?thesis by (simp add: of_char_digit_char)
  next
    case False
    with 1 have "foldl (\<lambda>a c. 10 * a + (of_char c - 48)) 0 (string_of_nat (n div 10)) = n div 10"
      by simp
    with False show ?thesis
      by (subst string_of_nat.simps) (simp add: of_char_digit_char)
  qed
qed

lemma string_of_nat_digits: "set (string_of_nat n) \<subseteq> set ''0123456789''"
proof (induction n rule: string_of_nat.induct)
  case (1 n)
  show ?case
  proof (cases "n < 10")
    case True
    then show ?thesis using digit_char_digit [of n] by simp
  next
    case False
    with 1 have "set (string_of_nat (n div 10)) \<subseteq> set ''0123456789''" by simp
    moreover have "digit_char (n mod 10) \<in> set ''0123456789''"
      by (rule digit_char_digit) simp
    ultimately show ?thesis
      using False by (subst string_of_nat.simps) simp
  qed
qed

lemma string_of_nat_leading: "n \<noteq> 0 \<Longrightarrow> hd (string_of_nat n) \<noteq> CHR ''0''"
proof (induction n rule: string_of_nat.induct)
  case (1 n)
  show ?case
  proof (cases "n < 10")
    case True
    then show ?thesis using digit_char_zero [of n] "1.prems" by auto
  next
    case False
    then have "n div 10 \<noteq> 0" by simp
    with 1 False have "hd (string_of_nat (n div 10)) \<noteq> CHR ''0''" by simp
    then show ?thesis
      using False string_of_nat_nonempty [of "n div 10"]
      by (subst string_of_nat.simps) simp
  qed
qed

text \<open>
  Claim C8. For a project without questions \<open>formatQuestionsList\<close> gives the fixed sentence
  \<open>no_questions_text\<close>. Otherwise it gives the header line followed by one line for each
  question, in the order of the list: the lines are separated by a line feed, and the line of
  the question at index \<open>i\<close> is the decimal numeral of \<open>i + 1\<close>, a full stop, a space and the
  text of the question. The numeral of \<open>n\<close> consists of digits, has the value \<open>n\<close> and no
  leading zero.
\<close>

theorem formatQuestionsList_numbered:
  "formatQuestionsList qs =
     (if qs = [] then no_questions_text
      else questions_header @
           concat (map (\<lambda>i. (if i = 0 then [] else [CHR 0x0A]) @
                             string_of_nat (i + 1) @ ''. '' @ question_text (qs ! i))
                     [0..<length qs])) \<and>
   foldl (\<lambda>a c. 10 * a + (of_char c - 48)) 0 (string_of_nat n) = n \<and>
   set (string_of_nat n) \<subseteq> set ''0123456789'' \<and>
   string_of_nat n \<noteq> [] \<and>
   (n \<noteq> 0 \<longrightarrow> hd (string_of_nat n) \<noteq> CHR ''0'')"
proof (intro conjI)
  show "formatQuestionsList qs =
     (if qs = [] then no_questions_text
      else questions_header @
           concat (map (\<lambda>i. (if i = 0 then [] else [CHR 0x0A]) @
                             string_of_nat (i + 1) @ ''. '' @ question_text (qs ! i))
                     [0..<length qs]))"
    by (simp add: formatQuestionsList_def numbered_nth join_map_upt newline_def
        del: string_of_nat.simps)
  show "foldl (\<lambda>a c. 10 * a + (of_char c - 48)) 0 (string_of_nat n) = n"
    by (rule string_of_nat_value)
  show "set (string_of_nat n) \<subseteq> set ''0123456789''" by (rule string_of_nat_digits)
  show "string_of_nat n \<noteq> []" by (rule string_of_nat_nonempty)
  show "n \<noteq> 0 \<longrightarrow> hd (string_of_nat n) \<noteq> CHR ''0''" using string_of_nat_leading by blast
qed

text \<open>
  For the single question \<^verbatim>\<open>Should X?\<close> the reply is the header (the UTF-8 bytes of its four
  characters, a colon and a line feed) followed by \<^verbatim>\<open>1. Should X?\<close>. Twelve questions give
  twelve lines, numbered from 1 to 12.
\<close>

theorem formatQuestionsList_numbered_witness:
  "formatQuestionsList [question ''Should X?''] =
     [CHR 0xE8, CHR 0xAB, CHR 0x96, CHR 0xE7, CHR 0x82, CHR 0xB9,
      CHR 0xE4, CHR 0xB8, CHR 0x80, CHR 0xE8, CHR 0xA6, CHR 0xA7] @ '':'' @ [CHR 0x0A] @
     ''1. Should X?'' \<and>
   formatQuestionsList [question ''A'', question ''B'', question ''C'', question ''D'', question ''E'', question ''F'', question ''G'', question ''H'',
                        question ''I'', question ''J'', question ''K'', question ''L''] =
     [CHR 0xE8, CHR 0xAB, CHR 0x96, CHR 0xE7, CHR 0x82, CHR 0xB9,
      CHR 0xE4, CHR 0xB8, CHR 0x80, CHR 0xE8, CHR 0xA6, CHR 0xA7] @ '':'' @ [CHR 0x0A] @
     ''1. A'' @ [CHR 0x0A] @ ''2. B'' @ [CHR 0x0A] @ ''3. C'' @ [CHR 0x0A] @ ''4. D'' @ [CHR 0x0A] @
     ''5. E'' @ [CHR 0x0A] @ ''6. F'' @ [CHR 0x0A] @ ''7. G'' @ [CHR 0x0A] @ ''8. H'' @ [CHR 0x0A] @
     ''9. I'' @ [CHR 0x0A] @ ''10. J'' @ [CHR 0x0A] @ ''11. K'' @ [CHR 0x0A] @ ''12. L'' \<and>
   formatQuestionsList [] =
     [CHR 0xE8, CHR 0xAB, CHR 0x96, CHR 0xE7, CHR 0x82, CHR 0xB9, CHR 0xE3, CHR 0x81,
      CHR 0xAF, CHR 0xE3, CHR 0x81, CHR 0xBE, CHR 0xE3, CHR 0x81, CHR 0xA0, CHR 0xE8,
      CHR 0xA8, CHR 0xAD, CHR 0xE5, CHR 0xAE, CHR 0x9A, CHR 0xE3, CHR 0x81, CHR 0x95,
      CHR 0xE3, CHR 0x82, CHR 0x8C, CHR 0xE3, CHR 0x81, CHR 0xA6, CHR 0xE3, CHR 0x81,
      CHR 0x84, CHR 0xE3, CHR 0x81, CHR 0xBE, CHR 0xE3, CHR 0x81, CHR 0x9B, CHR 0xE3,
      CHR 0x82, CHR 0x93, CHR 0xE3, CHR 0x80, CHR 0x82] \<and>
   (12 \<noteq> (0::nat) \<and> string_of_nat 12 = ''12'' \<and> hd (string_of_nat 12) \<noteq> CHR ''0'') \<and>
   string_of_nat 0 = ''0'' \<and> string_of_nat 1203 = ''1203''"
proof -
  have one: "formatQuestionsList [question ''Should X?''] =
     [CHR 0xE8, CHR 0xAB, CHR 0x96, CHR 0xE7, CHR 0x82, CHR 0xB9,
      CHR 0xE4, CHR 0xB8, CHR 0x80, CHR 0xE8, CHR 0xA6, CHR 0xA7] @ '':'' @ [CHR 0x0A] @
     ''1. Should X?''"
    using formatQuestionsList_numbered [of "[question ''Should X?'']" 12]
    by (simp add: questions_header_def question_def digit_char_def)
  have twelve: "formatQuestionsList [question ''A'', question ''B'', question ''C'', question ''D'', question ''E'', question ''F'', question ''G'', question ''H'',
                        question ''I'', question ''J'', question ''K'', question ''L''] =
     [CHR 0xE8, CHR 0xAB, CHR 0x96, CHR 0xE7, CHR 0x82, CHR 0xB9,
      CHR 0xE4, CHR 0xB8, CHR 0x80, CHR 0xE8, CHR 0xA6, CHR 0xA7] @ '':'' @ [CHR 0x0A] @
     ''1. A'' @ [CHR 0x0A] @ ''2. B'' @ [CHR 0x0A] @ ''3. C'' @ [CHR 0x0A] @ ''4. D'' @ [CHR 0x0A] @
     ''5. E'' @ [CHR 0x0A] @ ''6. F'' @ [CHR 0x0A] @ ''7. G'' @ [CHR 0x0A] @ ''8. H'' @ [CHR 0x0A] @
     ''9. I'' @ [CHR 0x0A] @ ''10. J'' @ [CHR 0x0A] @ ''11. K'' @ [CHR 0x0A] @ ''12. L''"
    by (simp add: formatQuestionsList_def numbered_def newline_def questions_header_def question_def digit_char_def)
  have none: "formatQuestionsList [] =
     [CHR 0xE8, CHR 0xAB, CHR 0x96, CHR 0xE7, CHR 0x82, CHR 0xB9, CHR 0xE3, CHR 0x81,
      CHR 0xAF, CHR 0xE3, CHR 0x81, CHR 0xBE, CHR 0xE3, CHR 0x81, CHR 0xA0, CHR 0xE8,
      CHR 0xA8, CHR 0xAD, CHR 0xE5, CHR 0xAE, CHR 0x9A, CHR 0xE3, CHR 0x81, CHR 0x95,
      CHR 0xE3, CHR 0x82, CHR 0x8C, CHR 0xE3, CHR 0x81, CHR 0xA6, CHR 0xE3, CHR 0x81,
      CHR 0x84, CHR 0xE3, CHR 0x81, CHR 0xBE, CHR 0xE3, CHR 0x81, CHR 0x9B, CHR 0xE3,
      CHR 0x82, CHR 0x93, CHR 0xE3, CHR 0x80, CHR 0x82]"
    using formatQuestionsList_numbered [of "[]" 12]
    by (simp add: no_questions_text_def)
  have n: "string_of_nat 12 = ''12''" "string_of_nat 0 = ''0''" "string_of_nat 1203 = ''1203''"
    by (simp_all add: digit_char_def)
  have h: "hd (string_of_nat 12) \<noteq> CHR ''0''"
    using formatQuestionsList_numbered [of "[]" 12] by simp
  from one twelve none n h show ?thesis by simp
qed

subsection \<open>Routing\<close>

lemma drop_prefix_iff: "drop_prefix p s = Some r \<longleftrightarrow> s = p @ r"
  by (induction p s rule: drop_prefix.induct) auto








subsection \<open>Trimming\<close>

text \<open>
  The counter of \<open>strip_all\<close> never stops a run of removals early: what \<open>trimStart\<close> returns
  starts with no white space, and what \<open>trimEnd\<close> returns ends with none.
\<close>

lemma strip_one_shorter:
  "[] \<notin> set ws \<Longrightarrow> strip_one ws s = Some r \<Longrightarrow> length r < length s"
proof (induction ws)
  case Nil
  then show ?case by simp
next
  case (Cons w ws)
  show ?case
  proof (cases "drop_prefix w s")
    case None
    with Cons show ?thesis by simp
  next
    case (Some r')
    with Cons.prems have "r' = r" "s = w @ r" "w \<noteq> []"
      by (auto simp: drop_prefix_iff)
    then show ?thesis by simp
  qed
qed

lemma strip_one_Nil: "[] \<notin> set ws \<Longrightarrow> strip_one ws [] = None"
proof (induction ws)
  case Nil
  then show ?case by simp
next
  case (Cons w ws)
  then obtain c cs where "w = c # cs" by (cases w) auto
  with Cons show ?case by simp
qed

lemma strip_all_done:
  "[] \<notin> set ws \<Longrightarrow> length s \<le> n \<Longrightarrow> strip_one ws (strip_all ws n s) = None"
proof (induction n arbitrary: s)
  case 0
  then show ?case by (simp add: strip_one_Nil)
next
  case (Suc n)
  show ?case
  proof (cases "strip_one ws s")
    case None
    then show ?thesis by simp
  next
    case (Some r)
    with Suc.prems have "length r \<le> n"
      using strip_one_shorter [of ws s r] by simp
    with Suc Some show ?thesis by simp
  qed
qed

lemma white_space_nonempty: "[] \<notin> set white_space"
  by (simp add: white_space_def)

lemma trimStart_done: "strip_one white_space (trimStart s) = None"
  unfolding trimStart_def using white_space_nonempty by (rule strip_all_done) simp

lemma trimEnd_done: "strip_one (map rev white_space) (rev (trimEnd s)) = None"
  unfolding trimEnd_def rev_rev_ident using white_space_nonempty
  by (intro strip_all_done) auto

subsection \<open>Selecting the primary question\<close>

lemma foldl_first_maximum:
  fixes f :: "'a \<Rightarrow> real"
  shows "\<exists>before after.
     x # xs = before @ foldl (\<lambda>prev current. if f current > f prev then current else prev) x xs # after \<and>
     (\<forall>p \<in> set before. f p < f (foldl (\<lambda>prev current. if f current > f prev then current else prev) x xs)) \<and>
     (\<forall>p \<in> set after. f p \<le> f (foldl (\<lambda>prev current. if f current > f prev then current else prev) x xs))"
proof (induction xs rule: rev_induct)
  case Nil
  have "[x] = [] @ x # []" by simp
  then show ?case by fastforce
next
  case (snoc y ys)
  define r where "r = foldl (\<lambda>prev current. if f current > f prev then current else prev) x ys"
  from snoc obtain before after where s: "x # ys = before @ r # after"
    and lt: "\<forall>p \<in> set before. f p < f r" and le: "\<forall>p \<in> set after. f p \<le> f r"
    unfolding r_def by blast
  show ?case
  proof (cases "f y > f r")
    case True
    then have n: "foldl (\<lambda>prev current. if f current > f prev then current else prev) x (ys @ [y]) = y"
      by (simp add: r_def)
    have d: "x # ys @ [y] = (before @ r # after) @ y # []" using s by simp
    have "\<forall>p \<in> set (before @ r # after). f p < f y"
      using lt le True by fastforce
    with d show ?thesis
      unfolding n by (metis empty_iff list.set(1))
  next
    case False
    then have n: "foldl (\<lambda>prev current. if f current > f prev then current else prev) x (ys @ [y]) = r"
      by (simp add: r_def)
    have d: "x # ys @ [y] = before @ r # (after @ [y])" using s by simp
    have "\<forall>p \<in> set (after @ [y]). f p \<le> f r"
      using le False by auto
    with d lt show ?thesis
      unfolding n by blast
  qed
qed

lemma primaryQuestion_Cons:
  "\<exists>before q after.
     x # xs = before @ q # after \<and> primaryQuestion (x # xs) = Inr q \<and>
     (\<forall>p \<in> set before. confidence (stance p) < confidence (stance q)) \<and>
     (\<forall>p \<in> set after. confidence (stance p) \<le> confidence (stance q))"
  using foldl_first_maximum [of x xs "\<lambda>q. confidence (stance q)"]
  unfolding primaryQuestion_def reduce.simps by blast

text \<open>
  Claim C3. For a non-empty list of related questions the resolver selects an entry \<open>q\<close> of
  the list of maximal confidence, and the first such entry: every entry before \<open>q\<close> has a
  strictly smaller confidence, every entry after it a smaller or equal one. The report the
  resolver then asks the backend for is the one of \<open>q\<close>.
\<close>

theorem primaryQuestion_first_maximum:
  assumes "related \<noteq> []"
  shows "\<exists>before q after.
     related = before @ q # after \<and> primaryQuestion related = Inr q \<and>
     (\<forall>p \<in> set before. confidence (stance p) < confidence (stance q)) \<and>
     (\<forall>p \<in> set after. confidence (stance p) \<le> confidence (stance q)) \<and>
     snd (resolve_context w cs pid \<lparr>commentId = c, relatedQuestions = Some related\<rparr>) =
       cs @ [Get (''/projects/'' @ pid @ ''/questions/'' @ related_id q @ ''/stance-analysis'')]"
proof -
  from assms obtain x xs where r: "related = x # xs" by (cases related) auto
  from primaryQuestion_Cons [of x xs] obtain before q after where i:
    "related = before @ q # after" "primaryQuestion related = Inr q"
    "\<forall>p \<in> set before. confidence (stance p) < confidence (stance q)"
    "\<forall>p \<in> set after. confidence (stance p) \<le> confidence (stance q)"
    unfolding r by blast
  have "snd (resolve_context w cs pid \<lparr>commentId = c, relatedQuestions = Some related\<rparr>) =
       cs @ [Get (''/projects/'' @ pid @ ''/questions/'' @ related_id q @ ''/stance-analysis'')]"
    using assms i(2) by (simp add: resolve_context_def Let_def)
  with i show ?thesis by blast
qed

text \<open>
  Of the confidences 0.4, 0.9, 0.6 the entry with 0.9 is selected; of 0.9, 0.4, 0.9 the
  first entry.
\<close>

theorem primaryQuestion_first_maximum_witness:
  "[rq ''1'' 0.4, rq ''2'' 0.9, rq ''3'' 0.6] \<noteq> [] \<and>
   primaryQuestion [rq ''1'' 0.4, rq ''2'' 0.9, rq ''3'' 0.6] = Inr (rq ''2'' 0.9) \<and>
   primaryQuestion [rq ''1'' 0.9, rq ''2'' 0.4, rq ''3'' 0.9] = Inr (rq ''1'' 0.9)"
  using primaryQuestion_first_maximum [of "[rq ''1'' 0.4, rq ''2'' 0.9, rq ''3'' 0.6]"]
  by (simp add: primaryQuestion_def rq_def)

subsection \<open>The history in the prompts\<close>

lemma slice_last_suffix: "\<exists>older. xs = older @ slice_last n xs"
  by (metis append_take_drop_id slice_last_def)

lemma slice_last_length: "length (slice_last n xs) = min n (length xs)"
  by (simp add: slice_last_def)

lemma slice_last_append: "length recent = n \<Longrightarrow> slice_last n (older @ recent) = recent"
  by (simp add: slice_last_def)

lemma primaryQuestion_defined: "related \<noteq> [] \<Longrightarrow> \<exists>q. primaryQuestion related = Inr q"
  by (cases related) (simp_all add: primaryQuestion_def)

lemma resolve_context_Inr: "\<exists>contextualInfo. fst (resolve_context w cs pid a) = Inr contextualInfo"
proof (cases "relatedQuestions a")
  case None
  then show ?thesis by (simp add: resolve_context_def)
next
  case (Some related)
  show ?thesis
  proof (cases "related = []")
    case True
    with Some show ?thesis by (simp add: resolve_context_def)
  next
    case False
    then obtain q where "primaryQuestion related = Inr q"
      using primaryQuestion_defined by blast
    with Some False show ?thesis
      by (simp add: resolve_context_def Let_def split: sum.splits)
  qed
qed

lemma generateResponse_try_call:
  "\<exists>cs2 contextualInfo.
     generateResponse_try w cs u pid qs hist =
       (model_generateContent w cs2 (conversation qs contextualInfo hist u) generation_config,
        cs2 @ [GenerateContent (conversation qs contextualInfo hist u) generation_config])"
proof -
  obtain analysis cs1 where a: "analyzeUserMessage w cs u pid hist = (analysis, cs1)"
    by (cases "analyzeUserMessage w cs u pid hist")
  obtain ctx cs2 where c: "resolve_context w cs1 pid analysis = (ctx, cs2)"
    by (cases "resolve_context w cs1 pid analysis")
  from resolve_context_Inr [of w cs1 pid analysis] c obtain contextualInfo
    where "ctx = Inr contextualInfo" by auto
  with a c have "generateResponse_try w cs u pid qs hist =
       (model_generateContent w cs2 (conversation qs contextualInfo hist u) generation_config,
        cs2 @ [GenerateContent (conversation qs contextualInfo hist u) generation_config])"
    by (simp add: generateResponse_try_def Let_def)
  then show ?thesis by blast
qed

lemma generateResponse_call:
  "\<exists>cs2 contextualInfo.
     snd (generateResponse w cs u pid qs hist) =
       cs2 @ [GenerateContent (conversation qs contextualInfo hist u) generation_config]"
proof -
  from generateResponse_try_call [of w cs u pid qs hist] obtain cs2 contextualInfo where
    "generateResponse_try w cs u pid qs hist =
       (model_generateContent w cs2 (conversation qs contextualInfo hist u) generation_config,
        cs2 @ [GenerateContent (conversation qs contextualInfo hist u) generation_config])"
    by blast
  then have "snd (generateResponse w cs u pid qs hist) =
       cs2 @ [GenerateContent (conversation qs contextualInfo hist u) generation_config]"
    by (simp add: generateResponse_def split: sum.splits)
  then show ?thesis by blast
qed

lemma analyzeUserMessage_call:
  "\<exists>rest. snd (analyzeUserMessage w cs u pid hist) =
     cs @ GenerateContent [\<lparr>role = ''user'', parts = [analysis_prompt u hist]\<rparr>] analysis_config # rest"
  by (simp add: analyzeUserMessage_def Let_def split: sum.splits ClaimAnalysis.splits)

lemma analysis_prompt_lines:
  "analysis_prompt u hist =
     analysis_prompt_head @
     concat (map (\<lambda>i. (if i = 0 then [] else [CHR 0x0A]) @
                       (if sender (slice_last 5 hist ! i) = User then label_user else label_assistant) @
                       '': '' @ content (slice_last 5 hist ! i))
               [0..<length (slice_last 5 hist)]) @
     analysis_prompt_mid @ u @ analysis_prompt_tail"
  by (simp only: analysis_prompt_def formatChatHistory_def join_map_nth newline_def)

text \<open>
  Claim C7. Whatever the length of the history, both prompts embed its last five entries
  and no other: \<open>slice_last 5 hist\<close> is a suffix of the history of length
  \<open>min 5 (length hist)\<close>. The extraction prompt holds one line \<^verbatim>\<open><role label>: <content>\<close> for
  each of them, in order and separated by line feeds; the conversation sent for generation
  holds one turn for each of them, between the instruction turn and the turn of the new
  message, with the role \<^verbatim>\<open>user\<close> for a message of the user and \<^verbatim>\<open>model\<close> for a message of
  the bot. Entries older than the last five change neither prompt, and these prompts are the
  ones the two stages send to the model.
\<close>

theorem prompts_embed_last_five:
  "length (slice_last 5 hist) \<le> 5 \<and>
   length (slice_last 5 hist) = min 5 (length hist) \<and>
   (\<exists>older. hist = older @ slice_last 5 hist) \<and>
   analysis_prompt u hist =
     analysis_prompt_head @
     concat (map (\<lambda>i. (if i = 0 then [] else [CHR 0x0A]) @
                       (if sender (slice_last 5 hist ! i) = User then label_user else label_assistant) @
                       '': '' @ content (slice_last 5 hist ! i))
               [0..<length (slice_last 5 hist)]) @
     analysis_prompt_mid @ u @ analysis_prompt_tail \<and>
   conversation qs contextualInfo hist u =
     [\<lparr>role = ''user'', parts = [system_prompt qs contextualInfo]\<rparr>] @
     map (\<lambda>msg. \<lparr>role = (if sender msg = User then ''user'' else ''model''), parts = [content msg]\<rparr>)
       (slice_last 5 hist) @
     [\<lparr>role = ''user'', parts = [u]\<rparr>] \<and>
   (length recent = 5 \<longrightarrow>
      analysis_prompt u (older @ recent) = analysis_prompt u recent \<and>
      conversation qs contextualInfo (older @ recent) u = conversation qs contextualInfo recent u) \<and>
   (\<exists>rest. snd (analyzeUserMessage w cs u pid hist) =
      cs @ GenerateContent [\<lparr>role = ''user'', parts = [analysis_prompt u hist]\<rparr>] analysis_config # rest) \<and>
   (\<exists>cs2 info. snd (generateResponse w cs u pid qs hist) =
      cs2 @ [GenerateContent (conversation qs info hist u) generation_config])"
proof (intro conjI)
  show "length (slice_last 5 hist) \<le> 5" by (simp add: slice_last_length)
  show "length (slice_last 5 hist) = min 5 (length hist)" by (rule slice_last_length)
  show "\<exists>older. hist = older @ slice_last 5 hist" by (rule slice_last_suffix)
  show "analysis_prompt u hist =
     analysis_prompt_head @
     concat (map (\<lambda>i. (if i = 0 then [] else [CHR 0x0A]) @
                       (if sender (slice_last 5 hist ! i) = User then label_user else label_assistant) @
                       '': '' @ content (slice_last 5 hist ! i))
               [0..<length (slice_last 5 hist)]) @
     analysis_prompt_mid @ u @ analysis_prompt_tail"
    by (rule analysis_prompt_lines)
  show "conversation qs contextualInfo hist u =
     [\<lparr>role = ''user'', parts = [system_prompt qs contextualInfo]\<rparr>] @
     map (\<lambda>msg. \<lparr>role = (if sender msg = User then ''user'' else ''model''), parts = [content msg]\<rparr>)
       (slice_last 5 hist) @
     [\<lparr>role = ''user'', parts = [u]\<rparr>]"
    by (simp add: conversation_def history_turn_def)
  show "length recent = 5 \<longrightarrow>
      analysis_prompt u (older @ recent) = analysis_prompt u recent \<and>
      conversation qs contextualInfo (older @ recent) u = conversation qs contextualInfo recent u"
    by (simp add: analysis_prompt_def conversation_def slice_last_def)
  show "\<exists>rest. snd (analyzeUserMessage w cs u pid hist) =
      cs @ GenerateContent [\<lparr>role = ''user'', parts = [analysis_prompt u hist]\<rparr>] analysis_config # rest"
    by (rule analyzeUserMessage_call)
  show "\<exists>cs2 info. snd (generateResponse w cs u pid qs hist) =
      cs2 @ [GenerateContent (conversation qs info hist u) generation_config]"
    by (rule generateResponse_call)
qed

text \<open>
  A history of six messages: the oldest one changes neither prompt; the extraction prompt
  holds the five lines of the last five messages, the conversation their five turns between
  the instruction and the new message. A history of two messages gives two lines.
\<close>

theorem prompts_embed_last_five_witness:
  "length sample_history = 5 \<and>
   analysis_prompt ''so?'' ([message 0 Bot ''welcome''] @ sample_history) =
     analysis_prompt ''so?'' sample_history \<and>
   analysis_prompt ''so?'' ([message 0 Bot ''welcome''] @ sample_history) =
     analysis_prompt_head @
     label_user @ '': hello'' @ [CHR 0x0A] @
     label_assistant @ '': hi'' @ [CHR 0x0A] @
     label_user @ '': X is good'' @ [CHR 0x0A] @
     label_assistant @ '': why?'' @ [CHR 0x0A] @
     label_user @ '': because'' @
     analysis_prompt_mid @ ''so?'' @ analysis_prompt_tail \<and>
   analysis_prompt ''so?'' [message 0 Bot ''welcome'', message 1 User ''hello''] =
     analysis_prompt_head @
     label_assistant @ '': welcome'' @ [CHR 0x0A] @
     label_user @ '': hello'' @
     analysis_prompt_mid @ ''so?'' @ analysis_prompt_tail \<and>
   conversation [] [] ([message 0 Bot ''welcome''] @ sample_history) ''so?'' =
     [\<lparr>role = ''user'', parts = [system_prompt [] []]\<rparr>,
      \<lparr>role = ''user'', parts = [''hello'']\<rparr>,
      \<lparr>role = ''model'', parts = [''hi'']\<rparr>,
      \<lparr>role = ''user'', parts = [''X is good'']\<rparr>,
      \<lparr>role = ''model'', parts = [''why?'']\<rparr>,
      \<lparr>role = ''user'', parts = [''because'']\<rparr>,
      \<lparr>role = ''user'', parts = [''so?'']\<rparr>]"
proof -
  have h: "length sample_history = 5" by (simp add: sample_history_def)
  have k: "length sample_history = 5 \<longrightarrow>
      analysis_prompt ''so?'' ([message 0 Bot ''welcome''] @ sample_history) =
        analysis_prompt ''so?'' sample_history \<and>
      conversation [] [] ([message 0 Bot ''welcome''] @ sample_history) ''so?'' =
        conversation [] [] sample_history ''so?''"
    using prompts_embed_last_five [where recent = sample_history
        and older = "[message 0 Bot ''welcome'']" and u = "''so?''" and qs = "[]"
        and contextualInfo = "[]" and hist = sample_history and w = sample_world and cs = "[]"
        and pid = "''p1''"]
    by blast
  from k h have e: "analysis_prompt ''so?'' ([message 0 Bot ''welcome''] @ sample_history) =
        analysis_prompt ''so?'' sample_history"
    "conversation [] [] ([message 0 Bot ''welcome''] @ sample_history) ''so?'' =
        conversation [] [] sample_history ''so?''"
    by blast+
  have p: "analysis_prompt ''so?'' sample_history =
     analysis_prompt_head @
     label_user @ '': hello'' @ [CHR 0x0A] @
     label_assistant @ '': hi'' @ [CHR 0x0A] @
     label_user @ '': X is good'' @ [CHR 0x0A] @
     label_assistant @ '': why?'' @ [CHR 0x0A] @
     label_user @ '': because'' @
     analysis_prompt_mid @ ''so?'' @ analysis_prompt_tail"
    by (simp add: analysis_prompt_def formatChatHistory_def slice_last_def sample_history_def
        message_def newline_def)
  have p2: "analysis_prompt ''so?'' [message 0 Bot ''welcome'', message 1 User ''hello''] =
     analysis_prompt_head @
     label_assistant @ '': welcome'' @ [CHR 0x0A] @
     label_user @ '': hello'' @
     analysis_prompt_mid @ ''so?'' @ analysis_prompt_tail"
    by (simp add: analysis_prompt_def formatChatHistory_def slice_last_def message_def newline_def)
  have c: "conversation [] [] sample_history ''so?'' =
     [\<lparr>role = ''user'', parts = [system_prompt [] []]\<rparr>,
      \<lparr>role = ''user'', parts = [''hello'']\<rparr>,
      \<lparr>role = ''model'', parts = [''hi'']\<rparr>,
      \<lparr>role = ''user'', parts = [''X is good'']\<rparr>,
      \<lparr>role = ''model'', parts = [''why?'']\<rparr>,
      \<lparr>role = ''user'', parts = [''because'']\<rparr>,
      \<lparr>role = ''user'', parts = [''so?'']\<rparr>]"
    by (simp add: conversation_def history_turn_def slice_last_def sample_history_def message_def)
  show ?thesis
    unfolding e p p2 c using h by simp
qed

subsection \<open>Extracting the claim\<close>

lemma get_prop_field: "v \<noteq> JNull \<Longrightarrow> get_prop v k = Inr (field v k)"
  by (cases v) (simp_all add: field_def)


lemma parse_analysis_claim:
  assumes "JSON_parse w t = Some v" "field v ''hasContent'' = Some (JBool True)"
    "field v ''content'' = Some (JStr c)"
  shows "parse_analysis w t = Inr (Claim c)"
proof -
  have "v \<noteq> JNull" using assms(2) by (auto simp: field_def)
  then show ?thesis
    using assms get_prop_field by (simp add: parse_analysis_def)
qed



subsection \<open>Submitting the claim\<close>

lemma trim_claim_text: "trim ('' '' @ claim_text @ newline) = claim_text"
  by (simp add: trim_def trimStart_def trimEnd_def white_space_def claim_text_def newline_def)

text \<open>
  Claim C5. When a claim was extracted, \<open>analyzeUserMessage\<close> posts it to the backend. From
  the response it keeps, in order, the analysed questions that have a stance, each with the
  first entry of its list of stances; questions without a stance are dropped (and a list left
  empty is not returned at all). When the request fails it returns the empty result instead
  of raising.
\<close>

theorem analyzeUserMessage_submission:
  assumes "model_generateContent w cs [\<lparr>role = ''user'', parts = [analysis_prompt u hist]\<rparr>]
             analysis_config = Inr reply"
    and "JSON_parse w (trim reply) = Some v"
    and "field v ''hasContent'' = Some (JBool True)"
    and "field v ''content'' = Some (JStr c)"
    and "cs1 = cs @ [GenerateContent [\<lparr>role = ''user'', parts = [analysis_prompt u hist]\<rparr>] analysis_config]"
    and "path = ''/projects/'' @ pid @ ''/comments''"
    and "body = \<lparr>body_content = c, sourceType = ''other'', sourceUrl = None\<rparr>"
  shows "(backend_postComment w cs1 path body = Inr response \<longrightarrow>
      analyzeUserMessage w cs u pid hist =
        (\<lparr>commentId = Some (comment_id (comment response)),
          relatedQuestions =
            (if filter (\<lambda>q. stances q \<noteq> []) (analyzedQuestions response) = [] then None
             else Some (map (\<lambda>q. \<lparr>related_id = analyzed_id q, related_text = analyzed_text q,
                                   stance = \<lparr>stanceId = entry_stanceId (hd (stances q)),
                                             confidence = entry_confidence (hd (stances q))\<rparr>\<rparr>)
                          (filter (\<lambda>q. stances q \<noteq> []) (analyzedQuestions response))))\<rparr>,
         cs1 @ [Post path body])) \<and>
     (backend_postComment w cs1 path body = Inl e \<longrightarrow>
      analyzeUserMessage w cs u pid hist = (empty_analysis, cs1 @ [Post path body]))"
proof -
  have p: "parse_analysis w (trim reply) = Inr (Claim c)"
    using assms(2,3,4) by (rule parse_analysis_claim)
  have m: "List.map_filter first_stance qs =
      map (\<lambda>q. \<lparr>related_id = analyzed_id q, related_text = analyzed_text q,
                 stance = \<lparr>stanceId = entry_stanceId (hd (stances q)),
                           confidence = entry_confidence (hd (stances q))\<rparr>\<rparr>)
        (filter (\<lambda>q. stances q \<noteq> []) qs)" for qs
    by (induction qs) (auto simp: List.map_filter_def first_stance_def split: list.splits)
  show ?thesis
    using assms(1) p assms(5,6,7)
    by (simp add: analyzeUserMessage_def Let_def m empty_analysis_def)
qed

text \<open>
  The sample response has three analysed questions, the second without a stance: the first
  and the third are kept, each with its first stance. With the submission refused the
  analysis is empty.
\<close>

theorem analyzeUserMessage_submission_witness:
  "fst (analyzeUserMessage sample_world [] ''X is good'' ''p1'' []) =
     \<lparr>commentId = Some ''c1'',
      relatedQuestions =
        Some [\<lparr>related_id = ''1'', related_text = ''Q1'', stance = \<lparr>stanceId = ''pro'', confidence = 0.4\<rparr>\<rparr>,
              \<lparr>related_id = ''2'', related_text = ''Q2'', stance = \<lparr>stanceId = ''pro'', confidence = 0.9\<rparr>\<rparr>]\<rparr> \<and>
   fst (analyzeUserMessage post_down [] ''X is good'' ''p1'' []) = empty_analysis"
proof -
  let ?v = "JObj [(''hasContent'', JBool True), (''content'', JStr ''X should happen'')]"
  have m: "model_generateContent sample_world [] [\<lparr>role = ''user'', parts = [analysis_prompt ''X is good'' []]\<rparr>]
      analysis_config = Inr ('' '' @ claim_text @ newline)"
    by (simp add: sample_world_def claim_text_def)
  have p: "JSON_parse sample_world (trim ('' '' @ claim_text @ newline)) = Some ?v"
    unfolding trim_claim_text by (simp add: sample_world_def sample_parse_def claim_text_def)
  have m': "model_generateContent post_down [] [\<lparr>role = ''user'', parts = [analysis_prompt ''X is good'' []]\<rparr>]
      analysis_config = Inr ('' '' @ claim_text @ newline)"
    by (simp add: post_down_def sample_world_def claim_text_def)
  have p': "JSON_parse post_down (trim ('' '' @ claim_text @ newline)) = Some ?v"
    unfolding trim_claim_text by (simp add: post_down_def sample_world_def sample_parse_def claim_text_def)
  have h: "field ?v ''hasContent'' = Some (JBool True)" by (simp add: field_def)
  have c: "field ?v ''content'' = Some (JStr ''X should happen'')" by (simp add: field_def)
  have ok: "backend_postComment sample_world cs path body = Inr sample_response" for cs path body
    by (simp add: sample_world_def)
  have ko: "backend_postComment post_down cs path body = Inl (RequestFailed ''500'')" for cs path body
    by (simp add: post_down_def)
  from analyzeUserMessage_submission [OF m p h c refl refl refl, where pid = "''p1''" and response = sample_response] ok
    analyzeUserMessage_submission [OF m' p' h c refl refl refl, where pid = "''p1''" and e = "RequestFailed ''500''"] ko
  show ?thesis by (simp add: sample_response_def)
qed

subsection \<open>The handler of a frame\<close>

lemma on_message_known:
  assumes "addMessage sm (store sv) sid msg User = (Some um, st1)"
    and "getSession sm st1 sid = Some session"
  shows "on_message w sm sid pid sv (Message msg) =
     (let g = getProjectQuestions w (calls sv) pid;
          r = (if toLowerCase msg = ''questions'' then (formatQuestionsList (fst g), snd g)
               else generateResponse w (snd g) msg pid (fst g) (history session));
          b = addMessage sm st1 sid (fst r) Bot
      in sv\<lparr>store := snd b, calls := snd r, sent := sent sv @ [MessageFrame (fst b)]\<rparr>)"
  using assms
  by (simp add: on_message_def send_def Let_def case_prod_beta)

lemma getProjectQuestions_calls: "snd (getProjectQuestions w cs pid) = cs @ [Get (''/projects/'' @ pid)]"
  by (simp add: getProjectQuestions_def Let_def)

lemma on_message_command:
  assumes "addMessage sm (store sv) sid msg User = (Some um, st1)"
    and "getSession sm st1 sid = Some session"
    and "toLowerCase msg = ''questions''"
  shows "on_message w sm sid pid sv (Message msg) =
     sv\<lparr>store := snd (addMessage sm st1 sid (formatQuestionsList (fst (getProjectQuestions w (calls sv) pid))) Bot),
        calls := calls sv @ [Get (''/projects/'' @ pid)],
        sent := sent sv @ [MessageFrame (fst (addMessage sm st1 sid
                  (formatQuestionsList (fst (getProjectQuestions w (calls sv) pid))) Bot))]\<rparr>"
  unfolding on_message_known [OF assms(1,2)] Let_def
  using assms(3) by (simp add: getProjectQuestions_calls)

lemma on_message_pipeline:
  assumes "addMessage sm (store sv) sid msg User = (Some um, st1)"
    and "getSession sm st1 sid = Some session"
    and "toLowerCase msg \<noteq> ''questions''"
    and "response = generateResponse w (calls sv @ [Get (''/projects/'' @ pid)]) msg pid
                      (fst (getProjectQuestions w (calls sv) pid)) (history session)"
  shows "on_message w sm sid pid sv (Message msg) =
     sv\<lparr>store := snd (addMessage sm st1 sid (fst response) Bot),
        calls := snd response,
        sent := sent sv @ [MessageFrame (fst (addMessage sm st1 sid (fst response) Bot))]\<rparr>"
  unfolding on_message_known [OF assms(1,2)] Let_def assms(4)
  using assms(3) by (simp add: getProjectQuestions_calls)

lemma resolve_context_calls: "\<exists>more. snd (resolve_context w cs pid a) = cs @ more"
  by (simp add: resolve_context_def Let_def split: option.splits sum.splits)

lemma generateResponse_calls_extend:
  "\<exists>more. snd (generateResponse w cs u pid qs hist) = snd (analyzeUserMessage w cs u pid hist) @ more"
proof -
  obtain analysis cs1 where a: "analyzeUserMessage w cs u pid hist = (analysis, cs1)"
    by (cases "analyzeUserMessage w cs u pid hist")
  obtain more where m: "snd (resolve_context w cs1 pid analysis) = cs1 @ more"
    using resolve_context_calls by blast
  obtain info where i: "fst (resolve_context w cs1 pid analysis) = Inr info"
    using resolve_context_Inr by blast
  have "snd (generateResponse w cs u pid qs hist) =
      cs1 @ more @ [GenerateContent (conversation qs info hist u) generation_config]"
    using a m i
    by (simp add: generateResponse_def generateResponse_try_def Let_def case_prod_beta
        split: sum.splits)
  with a show ?thesis by simp
qed

lemma generateResponse_first_call:
  "\<exists>rest. snd (generateResponse w cs u pid qs hist) =
     cs @ GenerateContent [\<lparr>role = ''user'', parts = [analysis_prompt u hist]\<rparr>] analysis_config # rest"
proof -
  obtain more where "snd (generateResponse w cs u pid qs hist) =
      snd (analyzeUserMessage w cs u pid hist) @ more"
    using generateResponse_calls_extend by blast
  moreover obtain rest where "snd (analyzeUserMessage w cs u pid hist) =
     cs @ GenerateContent [\<lparr>role = ''user'', parts = [analysis_prompt u hist]\<rparr>] analysis_config # rest"
    using analyzeUserMessage_call by blast
  ultimately have "snd (generateResponse w cs u pid qs hist) =
     cs @ GenerateContent [\<lparr>role = ''user'', parts = [analysis_prompt u hist]\<rparr>] analysis_config #
       (rest @ more)"
    by simp
  then show ?thesis by blast
qed

text \<open>Facts about the sample world and the sample server.\<close>

lemma conversation_length: "length (conversation qs info hist u) = length (slice_last 5 hist) + 2"
  by (simp add: conversation_def)

lemma sample_world_reply:
  "fst (generateResponse sample_world cs u pid qs hist) = ''What makes you say so?''"
proof -
  obtain cs2 info where t: "generateResponse_try sample_world cs u pid qs hist =
       (model_generateContent sample_world cs2 (conversation qs info hist u) generation_config,
        cs2 @ [GenerateContent (conversation qs info hist u) generation_config])"
    using generateResponse_try_call by blast
  have "model_generateContent sample_world cs2 (conversation qs info hist u) generation_config =
      Inr ''What makes you say so?''"
    by (simp add: sample_world_def conversation_length)
  with t show ?thesis by (simp add: generateResponse_def)
qed

lemma sample_server_user_message:
  "addMessage sessionManager (store sample_server) ''s0'' msg User =
     (Some (message 1 User msg),
      \<lparr>sessions = [(''s0'', \<lparr>session_id = ''s0'', session_project = ''p1'',
                             history = [message 1 User msg], createdAt = 0\<rparr>)],
       counter = 2\<rparr>)"
  by (simp add: sessionManager_def store_addMessage_def sample_server_def message_def Let_def)

lemma sample_server_session:
  "getSession sessionManager
     \<lparr>sessions = [(''s0'', \<lparr>session_id = ''s0'', session_project = ''p1'',
                            history = [message 1 User msg], createdAt = 0\<rparr>)],
      counter = 2\<rparr> ''s0'' =
   Some \<lparr>session_id = ''s0'', session_project = ''p1'', history = [message 1 User msg],
         createdAt = 0\<rparr>"
  by (simp add: sessionManager_def store_getSession_def)

lemma sample_server_bot_message:
  "fst (addMessage sessionManager
     \<lparr>sessions = [(''s0'', \<lparr>session_id = ''s0'', session_project = ''p1'',
                            history = [message 1 User msg], createdAt = 0\<rparr>)],
      counter = 2\<rparr> ''s0'' reply Bot) = Some (message 2 Bot reply)"
  by (simp add: sessionManager_def store_addMessage_def message_def Let_def)

lemma sample_server_fresh: "calls sample_server = []" "sent sample_server = []"
  by (simp_all add: sample_server_def)

lemma sample_server_update:
  "sample_server\<lparr>store := a, calls := b, sent := c\<rparr> = \<lparr>store = a, calls = b, sent = c\<rparr>"
  by (simp add: sample_server_def)

subsection \<open>A frame for an unknown session\<close>

text \<open>
  Claim C6. When \<open>addMessage\<close> returns nothing for the message of the user, the handler
  sends exactly the frame \<^verbatim>\<open>{error: "Session not found"}\<close>, calls neither the model nor the
  backend, and calls \<open>addMessage\<close> no second time: the store is the one that call left. The
  connection stays in service: the next frame is answered as usual. With the session store
  of the spec, a frame for an unknown session changes nothing but the frames sent.
\<close>

theorem on_message_unknown_session:
  assumes "fst (addMessage sm (store sv) sid msg User) = None"
  shows "sent (on_message w sm sid pid sv (Message msg)) = sent sv @ [ErrorFrame ''Session not found''] \<and>
     calls (on_message w sm sid pid sv (Message msg)) = calls sv \<and>
     store (on_message w sm sid pid sv (Message msg)) = snd (addMessage sm (store sv) sid msg User) \<and>
     sent (on_message w sm sid pid (on_message w sm sid pid sv (Message msg)) Malformed) =
       sent sv @ [ErrorFrame ''Session not found'', ErrorFrame ''Invalid message format''] \<and>
     (map_of (sessions (store sv')) sid = None \<longrightarrow>
        on_message w sessionManager sid pid sv' (Message msg) =
          sv'\<lparr>sent := sent sv' @ [ErrorFrame ''Session not found'']\<rparr>)"
proof -
  obtain st1 where a: "addMessage sm (store sv) sid msg User = (None, st1)"
    using assms by (cases "addMessage sm (store sv) sid msg User") simp
  have r: "on_message w sm sid pid sv (Message msg) =
      send (ErrorFrame ''Session not found'') (sv\<lparr>store := st1\<rparr>)"
    using a by (simp add: on_message_def)
  have s: "map_of (sessions (store sv')) sid = None \<longrightarrow>
        on_message w sessionManager sid pid sv' (Message msg) =
          sv'\<lparr>sent := sent sv' @ [ErrorFrame ''Session not found'']\<rparr>"
    by (simp add: on_message_def sessionManager_def store_addMessage_def send_def)
  show ?thesis
    using r a s by (simp add: send_def on_message_def)
qed

text \<open>The sample server has no session \<open>s9\<close>.\<close>

theorem on_message_unknown_session_witness:
  "fst (addMessage sessionManager (store sample_server) ''s9'' ''hello'' User) = None \<and>
   on_message sample_world sessionManager ''s9'' ''p1'' sample_server (Message ''hello'') =
     sample_server\<lparr>sent := [ErrorFrame ''Session not found'']\<rparr>"
proof -
  have h: "fst (addMessage sessionManager (store sample_server) ''s9'' ''hello'' User) = None"
    by (simp add: sessionManager_def store_addMessage_def sample_server_def)
  have m: "map_of (sessions (store sample_server)) ''s9'' = None"
    by (simp add: sample_server_def)
  have e: "sent sample_server = []" by (simp add: sample_server_def)
  from on_message_unknown_session [OF h, where w = sample_world and pid = "''p1''" and sv' = sample_server] m e h
  show ?thesis by simp
qed

subsection \<open>A backend that is down\<close>

text \<open>
  Claim C10. When the request \<^verbatim>\<open>GET /projects/{id}\<close> fails, \<open>getProjectQuestions\<close> gives the
  empty list instead of raising. For a frame of a known session the handler then answers
  the command \<^verbatim>\<open>questions\<close> with the sentence \<open>no_questions_text\<close>, and every other message
  with the reply generated for an empty list of questions; either reply goes out as a
  message frame, not as an error frame.
\<close>

theorem getProjectQuestions_backend_down:
  assumes "backend_getProject w cs (''/projects/'' @ pid) = Inl e"
  shows "getProjectQuestions w cs pid = ([], cs @ [Get (''/projects/'' @ pid)]) \<and>
     (cs = calls sv \<and> addMessage sm (store sv) sid msg User = (Some um, st1) \<and>
      getSession sm st1 sid = Some session \<longrightarrow>
        (toLowerCase msg = ''questions'' \<longrightarrow>
           sent (on_message w sm sid pid sv (Message msg)) =
             sent sv @ [MessageFrame (fst (addMessage sm st1 sid no_questions_text Bot))] \<and>
           store (on_message w sm sid pid sv (Message msg)) =
             snd (addMessage sm st1 sid no_questions_text Bot)) \<and>
        (toLowerCase msg \<noteq> ''questions'' \<longrightarrow>
           sent (on_message w sm sid pid sv (Message msg)) =
             sent sv @ [MessageFrame (fst (addMessage sm st1 sid
                (fst (generateResponse w (cs @ [Get (''/projects/'' @ pid)]) msg pid [] (history session)))
                Bot))]))"
proof -
  have g: "getProjectQuestions w cs pid = ([], cs @ [Get (''/projects/'' @ pid)])"
    using assms by (simp add: getProjectQuestions_def Let_def)
  have f: "formatQuestionsList [] = no_questions_text"
    by (simp add: formatQuestionsList_def)
  have c: "sent (on_message w sm sid pid sv (Message msg)) =
             sent sv @ [MessageFrame (fst (addMessage sm st1 sid no_questions_text Bot))] \<and>
           store (on_message w sm sid pid sv (Message msg)) =
             snd (addMessage sm st1 sid no_questions_text Bot)"
    if "cs = calls sv" "addMessage sm (store sv) sid msg User = (Some um, st1)"
      "getSession sm st1 sid = Some session" "toLowerCase msg = ''questions''"
    using g f that(1) by (simp add: on_message_command [OF that(2,3,4)])
  have p: "sent (on_message w sm sid pid sv (Message msg)) =
             sent sv @ [MessageFrame (fst (addMessage sm st1 sid
                (fst (generateResponse w (cs @ [Get (''/projects/'' @ pid)]) msg pid [] (history session)))
                Bot))]"
    if "cs = calls sv" "addMessage sm (store sv) sid msg User = (Some um, st1)"
      "getSession sm st1 sid = Some session" "toLowerCase msg \<noteq> ''questions''"
    using g that(1) by (simp add: on_message_pipeline [OF that(2,3,4) refl])
  show ?thesis using g c p by blast
qed

text \<open>With the backend refusing the connection, the command is answered by the fixed sentence.\<close>

theorem getProjectQuestions_backend_down_witness:
  "backend_getProject backend_down [] (''/projects/'' @ ''p1'') = Inl (RequestFailed ''ECONNREFUSED'') \<and>
   getProjectQuestions backend_down [] ''p1'' = ([], [Get ''/projects/p1'']) \<and>
   sent (on_message backend_down sessionManager ''s0'' ''p1'' sample_server (Message ''questions'')) =
     [MessageFrame (Some (message 2 Bot no_questions_text))]"
proof -
  have h: "backend_getProject backend_down [] (''/projects/'' @ ''p1'') = Inl (RequestFailed ''ECONNREFUSED'')"
    by (simp add: backend_down_def sample_world_def)
  have a: "addMessage sessionManager (store sample_server) ''s0'' ''questions'' User =
      (Some (message 1 User ''questions''),
       \<lparr>sessions = [(''s0'', \<lparr>session_id = ''s0'', session_project = ''p1'',
                              history = [message 1 User ''questions''], createdAt = 0\<rparr>)],
        counter = 2\<rparr>)"
    by (simp add: sessionManager_def store_addMessage_def sample_server_def message_def Let_def)
  have s: "getSession sessionManager
       \<lparr>sessions = [(''s0'', \<lparr>session_id = ''s0'', session_project = ''p1'',
                              history = [message 1 User ''questions''], createdAt = 0\<rparr>)],
        counter = 2\<rparr> ''s0'' =
      Some \<lparr>session_id = ''s0'', session_project = ''p1'',
            history = [message 1 User ''questions''], createdAt = 0\<rparr>"
    by (simp add: sessionManager_def store_getSession_def)
  have l: "toLowerCase ''questions'' = ''questions''"
    by (simp add: toLowerCase_def lower_char_def)
  have b: "fst (addMessage sessionManager
       \<lparr>sessions = [(''s0'', \<lparr>session_id = ''s0'', session_project = ''p1'',
                              history = [message 1 User ''questions''], createdAt = 0\<rparr>)],
        counter = 2\<rparr> ''s0'' no_questions_text Bot) = Some (message 2 Bot no_questions_text)"
    by (simp add: sessionManager_def store_addMessage_def message_def Let_def)
  have c: "calls sample_server = []" "sent sample_server = []"
    by (simp_all add: sample_server_def)
  from getProjectQuestions_backend_down [OF h, where sv = sample_server and sm = sessionManager
      and sid = "''s0''" and msg = "''questions''"] a s l b c
  show ?thesis using h by simp
qed

subsection \<open>The command \<^verbatim>\<open>questions\<close>\<close>

text \<open>
  The claim C1 as the spec words it tests the content after trimming. The handler does not
  trim: the message \<^verbatim>\<open>questions\<close> with a leading space is the command once trimmed and
  lowered, yet the handler sends it through analysis and generation. The reply is the text
  of the model, not the list of questions, and the second call of the turn is the
  extraction prompt sent to the model.
\<close>

theorem on_message_trimmed_command_counterexample:
  "toLowerCase (trim '' questions'') = ''questions'' \<and>
   sent (on_message sample_world sessionManager ''s0'' ''p1'' sample_server (Message '' questions'')) =
     [MessageFrame (Some (message 2 Bot ''What makes you say so?''))] \<and>
   formatQuestionsList (fst (getProjectQuestions sample_world [] ''p1'')) \<noteq> ''What makes you say so?'' \<and>
   calls (on_message sample_world sessionManager ''s0'' ''p1'' sample_server (Message '' questions'')) ! 1 =
     GenerateContent
       [\<lparr>role = ''user'', parts = [analysis_prompt '' questions'' [message 1 User '' questions'']]\<rparr>]
       analysis_config"
proof -
  have t: "toLowerCase (trim '' questions'') = ''questions''"
    by (simp add: trim_def trimStart_def trimEnd_def white_space_def toLowerCase_def lower_char_def)
  have l: "toLowerCase '' questions'' \<noteq> ''questions''"
    by (simp add: toLowerCase_def lower_char_def)
  let ?r = "generateResponse sample_world (calls sample_server @ [Get (''/projects/'' @ ''p1'')])
       '' questions'' ''p1'' (fst (getProjectQuestions sample_world (calls sample_server) ''p1''))
       [message 1 User '' questions'']"
  have o: "on_message sample_world sessionManager ''s0'' ''p1'' sample_server (Message '' questions'') =
     sample_server\<lparr>store := snd (addMessage sessionManager
         \<lparr>sessions = [(''s0'', \<lparr>session_id = ''s0'', session_project = ''p1'',
                            history = [message 1 User '' questions''], createdAt = 0\<rparr>)],
          counter = 2\<rparr> ''s0'' (fst ?r) Bot),
       calls := snd ?r,
       sent := sent sample_server @ [MessageFrame (fst (addMessage sessionManager
         \<lparr>sessions = [(''s0'', \<lparr>session_id = ''s0'', session_project = ''p1'',
                            history = [message 1 User '' questions''], createdAt = 0\<rparr>)],
          counter = 2\<rparr> ''s0'' (fst ?r) Bot))]\<rparr>"
    using on_message_pipeline [OF sample_server_user_message sample_server_session l, of _ sample_world "''p1''"]
    by simp
  have s: "sent (on_message sample_world sessionManager ''s0'' ''p1'' sample_server (Message '' questions'')) =
     [MessageFrame (Some (message 2 Bot ''What makes you say so?''))]"
    unfolding o sample_world_reply sample_server_bot_message sample_server_fresh by simp
  obtain rest where "snd ?r =
     (calls sample_server @ [Get (''/projects/'' @ ''p1'')]) @
     GenerateContent [\<lparr>role = ''user'', parts = [analysis_prompt '' questions'' [message 1 User '' questions'']]\<rparr>]
       analysis_config # rest"
    using generateResponse_first_call by blast
  then have c: "calls (on_message sample_world sessionManager ''s0'' ''p1'' sample_server (Message '' questions'')) ! 1 =
     GenerateContent
       [\<lparr>role = ''user'', parts = [analysis_prompt '' questions'' [message 1 User '' questions'']]\<rparr>]
       analysis_config"
    unfolding o sample_server_fresh by simp
  have f: "formatQuestionsList (fst (getProjectQuestions sample_world [] ''p1'')) \<noteq> ''What makes you say so?''"
    by (simp add: getProjectQuestions_def sample_world_def formatQuestionsList_def questions_header_def)
  from t s f c show ?thesis by blast
qed

text \<open>
  Claim C1, amended. For a frame of type \<^verbatim>\<open>message\<close> whose message was stored (the session
  is known): when the content, lowered and not trimmed, is the word \<^verbatim>\<open>questions\<close>, the reply
  is the formatted list of the project's questions and the only call of the turn is the
  request for the project, so neither the analyser nor the composer runs; otherwise the
  reply is the one \<open>generateResponse\<close> computes, whose calls start with the extraction prompt
  sent to the model and end with the conversation sent for generation. The reply is stored
  as a message of the bot and sent in a message frame.
\<close>

theorem on_message_questions_command:
  assumes "addMessage sm (store sv) sid msg User = (Some um, st1)"
    and "getSession sm st1 sid = Some session"
    and "qs = fst (getProjectQuestions w (calls sv) pid)"
    and "response = generateResponse w (calls sv @ [Get (''/projects/'' @ pid)]) msg pid qs
                      (history session)"
  shows "(toLowerCase msg = ''questions'' \<longrightarrow>
      on_message w sm sid pid sv (Message msg) =
        sv\<lparr>store := snd (addMessage sm st1 sid (formatQuestionsList qs) Bot),
           calls := calls sv @ [Get (''/projects/'' @ pid)],
           sent := sent sv @ [MessageFrame (fst (addMessage sm st1 sid (formatQuestionsList qs) Bot))]\<rparr>) \<and>
     (toLowerCase msg \<noteq> ''questions'' \<longrightarrow>
      on_message w sm sid pid sv (Message msg) =
        sv\<lparr>store := snd (addMessage sm st1 sid (fst response) Bot),
           calls := snd response,
           sent := sent sv @ [MessageFrame (fst (addMessage sm st1 sid (fst response) Bot))]\<rparr> \<and>
      (\<exists>rest. snd response =
         (calls sv @ [Get (''/projects/'' @ pid)]) @
         GenerateContent [\<lparr>role = ''user'', parts = [analysis_prompt msg (history session)]\<rparr>]
           analysis_config # rest) \<and>
      (\<exists>cs2 info. snd response =
         cs2 @ [GenerateContent (conversation qs info (history session) msg) generation_config]))"
proof (intro conjI impI)
  assume "toLowerCase msg = ''questions''"
  then show "on_message w sm sid pid sv (Message msg) =
        sv\<lparr>store := snd (addMessage sm st1 sid (formatQuestionsList qs) Bot),
           calls := calls sv @ [Get (''/projects/'' @ pid)],
           sent := sent sv @ [MessageFrame (fst (addMessage sm st1 sid (formatQuestionsList qs) Bot))]\<rparr>"
    unfolding assms(3) by (rule on_message_command [OF assms(1,2)])
next
  assume "toLowerCase msg \<noteq> ''questions''"
  then show "on_message w sm sid pid sv (Message msg) =
        sv\<lparr>store := snd (addMessage sm st1 sid (fst response) Bot),
           calls := snd response,
           sent := sent sv @ [MessageFrame (fst (addMessage sm st1 sid (fst response) Bot))]\<rparr>"
    using assms(4) unfolding assms(3) by (rule on_message_pipeline [OF assms(1,2)])
next
  show "\<exists>rest. snd response =
         (calls sv @ [Get (''/projects/'' @ pid)]) @
         GenerateContent [\<lparr>role = ''user'', parts = [analysis_prompt msg (history session)]\<rparr>]
           analysis_config # rest"
    unfolding assms(4) by (rule generateResponse_first_call)
next
  show "\<exists>cs2 info. snd response =
         cs2 @ [GenerateContent (conversation qs info (history session) msg) generation_config]"
    unfolding assms(4) by (rule generateResponse_call)
qed

text \<open>
  On the sample server \<^verbatim>\<open>Questions\<close> is answered by the list of the one question with the
  request for the project as the only call; \<^verbatim>\<open>hello\<close> is answered by the model.
\<close>

theorem on_message_questions_command_witness:
  "on_message sample_world sessionManager ''s0'' ''p1'' sample_server (Message ''Questions'') =
     \<lparr>store = \<lparr>sessions = [(''s0'', \<lparr>session_id = ''s0'', session_project = ''p1'',
          history = [message 1 User ''Questions'',
                     message 2 Bot (questions_header @ ''1. Should X?'')], createdAt = 0\<rparr>)],
        counter = 3\<rparr>,
      calls = [Get ''/projects/p1''],
      sent = [MessageFrame (Some (message 2 Bot (questions_header @ ''1. Should X?'')))]\<rparr> \<and>
   sent (on_message sample_world sessionManager ''s0'' ''p1'' sample_server (Message ''hello'')) =
     [MessageFrame (Some (message 2 Bot ''What makes you say so?''))]"
proof -
  have l: "toLowerCase ''Questions'' = ''questions''" "toLowerCase ''hello'' \<noteq> ''questions''"
    by (simp_all add: toLowerCase_def lower_char_def)
  have q: "fst (getProjectQuestions sample_world [] ''p1'') =
      [\<lparr>question_id = ''q1'', question_text = ''Should X?''\<rparr>]"
    by (simp add: getProjectQuestions_def sample_world_def)
  have f: "formatQuestionsList [\<lparr>question_id = ''q1'', question_text = ''Should X?''\<rparr>] =
      questions_header @ ''1. Should X?''"
    by (simp add: formatQuestionsList_def numbered_def digit_char_def)
  have b: "addMessage sessionManager
     \<lparr>sessions = [(''s0'', \<lparr>session_id = ''s0'', session_project = ''p1'',
                            history = [message 1 User ''Questions''], createdAt = 0\<rparr>)],
      counter = 2\<rparr> ''s0'' reply Bot =
     (Some (message 2 Bot reply),
      \<lparr>sessions = [(''s0'', \<lparr>session_id = ''s0'', session_project = ''p1'',
          history = [message 1 User ''Questions'', message 2 Bot reply], createdAt = 0\<rparr>)],
        counter = 3\<rparr>)" for reply
    by (simp add: sessionManager_def store_addMessage_def message_def Let_def)
  have one: "on_message sample_world sessionManager ''s0'' ''p1'' sample_server (Message ''Questions'') =
     \<lparr>store = \<lparr>sessions = [(''s0'', \<lparr>session_id = ''s0'', session_project = ''p1'',
          history = [message 1 User ''Questions'',
                     message 2 Bot (questions_header @ ''1. Should X?'')], createdAt = 0\<rparr>)],
        counter = 3\<rparr>,
      calls = [Get ''/projects/p1''],
      sent = [MessageFrame (Some (message 2 Bot (questions_header @ ''1. Should X?'')))]\<rparr>"
  proof -
    from on_message_questions_command [OF sample_server_user_message sample_server_session refl refl,
        of "''Questions''" sample_world "''p1''"] l(1)
    have "on_message sample_world sessionManager ''s0'' ''p1'' sample_server (Message ''Questions'') =
      sample_server\<lparr>store := snd (addMessage sessionManager
         \<lparr>sessions = [(''s0'', \<lparr>session_id = ''s0'', session_project = ''p1'',
                            history = [message 1 User ''Questions''], createdAt = 0\<rparr>)],
          counter = 2\<rparr> ''s0''
          (formatQuestionsList (fst (getProjectQuestions sample_world (calls sample_server) ''p1''))) Bot),
        calls := calls sample_server @ [Get (''/projects/'' @ ''p1'')],
        sent := sent sample_server @ [MessageFrame (fst (addMessage sessionManager
         \<lparr>sessions = [(''s0'', \<lparr>session_id = ''s0'', session_project = ''p1'',
                            history = [message 1 User ''Questions''], createdAt = 0\<rparr>)],
          counter = 2\<rparr> ''s0''
          (formatQuestionsList (fst (getProjectQuestions sample_world (calls sample_server) ''p1''))) Bot))]\<rparr>"
      by blast
    then show ?thesis
      unfolding q f b sample_server_fresh sample_server_update by simp
  qed
  have two: "sent (on_message sample_world sessionManager ''s0'' ''p1'' sample_server (Message ''hello'')) =
     [MessageFrame (Some (message 2 Bot ''What makes you say so?''))]"
  proof -
    let ?r = "generateResponse sample_world (calls sample_server @ [Get (''/projects/'' @ ''p1'')])
       ''hello'' ''p1'' (fst (getProjectQuestions sample_world (calls sample_server) ''p1''))
       (history \<lparr>session_id = ''s0'', session_project = ''p1'', history = [message 1 User ''hello''],
          createdAt = 0\<rparr>)"
    from on_message_questions_command [OF sample_server_user_message sample_server_session refl refl,
        of "''hello''" sample_world "''p1''"] l(2)
    have "on_message sample_world sessionManager ''s0'' ''p1'' sample_server (Message ''hello'') =
      sample_server\<lparr>store := snd (addMessage sessionManager
         \<lparr>sessions = [(''s0'', \<lparr>session_id = ''s0'', session_project = ''p1'',
                            history = [message 1 User ''hello''], createdAt = 0\<rparr>)],
          counter = 2\<rparr> ''s0'' (fst ?r) Bot),
        calls := snd ?r,
        sent := sent sample_server @ [MessageFrame (fst (addMessage sessionManager
         \<lparr>sessions = [(''s0'', \<lparr>session_id = ''s0'', session_project = ''p1'',
                            history = [message 1 User ''hello''], createdAt = 0\<rparr>)],
          counter = 2\<rparr> ''s0'' (fst ?r) Bot))]\<rparr>"
      by blast
    then show ?thesis
      unfolding sample_world_reply sample_server_bot_message sample_server_fresh by simp
  qed
  from one two show ?thesis by blast
qed

subsection \<open>A failing generation\<close>

lemma generateResponse_caught:
  "fst (generateResponse_try w cs u pid qs hist) = Inl e \<Longrightarrow>
   fst (generateResponse w cs u pid qs hist) = apology_text"
  by (cases "generateResponse_try w cs u pid qs hist") (simp add: generateResponse_def)

lemma generateResponse_model_fails:
  assumes "\<forall>cs' ms. \<exists>e. model_generateContent w cs' ms generation_config = Inl e"
  shows "fst (generateResponse w cs u pid qs hist) = apology_text"
proof -
  obtain cs2 info where t: "generateResponse_try w cs u pid qs hist =
       (model_generateContent w cs2 (conversation qs info hist u) generation_config,
        cs2 @ [GenerateContent (conversation qs info hist u) generation_config])"
    using generateResponse_try_call by blast
  from assms obtain e where
    "model_generateContent w cs2 (conversation qs info hist u) generation_config = Inl e"
    by blast
  with t have "fst (generateResponse_try w cs u pid qs hist) = Inl e" by simp
  then show ?thesis by (rule generateResponse_caught)
qed

lemma generateResponse_apology_or_model:
  "fst (generateResponse w cs u pid qs hist) = apology_text \<or>
   (\<exists>cs' info. model_generateContent w cs' (conversation qs info hist u) generation_config =
      Inr (fst (generateResponse w cs u pid qs hist)))"
proof -
  obtain cs2 info where t: "generateResponse_try w cs u pid qs hist =
       (model_generateContent w cs2 (conversation qs info hist u) generation_config,
        cs2 @ [GenerateContent (conversation qs info hist u) generation_config])"
    using generateResponse_try_call by blast
  show ?thesis
  proof (cases "model_generateContent w cs2 (conversation qs info hist u) generation_config")
    case (Inl e)
    with t have "fst (generateResponse w cs u pid qs hist) = apology_text"
      by (simp add: generateResponse_def)
    then show ?thesis by simp
  next
    case (Inr reply)
    with t have "fst (generateResponse w cs u pid qs hist) = reply"
      by (simp add: generateResponse_def)
    with Inr show ?thesis by blast
  qed
qed

text \<open>
  Claim C4. \<open>generateResponse\<close> always returns a text. Every error that leaves its \<^verbatim>\<open>try\<close>
  block is caught and turned into the fixed apology \<open>apology_text\<close>; this is so in particular
  when the call of the model for the conversation fails. Its result is either the apology
  or the text the model returned for the conversation. In the handler the apology is stored
  as a message of the bot and sent in a message frame like any other reply: no error frame
  is sent.
\<close>

theorem generateResponse_failure_apology:
  "((\<exists>e. fst (generateResponse_try w cs u pid qs hist) = Inl e) \<longrightarrow>
      fst (generateResponse w cs u pid qs hist) = apology_text) \<and>
   ((\<forall>cs' ms. \<exists>e. model_generateContent w cs' ms generation_config = Inl e) \<longrightarrow>
      fst (generateResponse w cs u pid qs hist) = apology_text) \<and>
   (fst (generateResponse w cs u pid qs hist) = apology_text \<or>
    (\<exists>cs' info. model_generateContent w cs' (conversation qs info hist u) generation_config =
       Inr (fst (generateResponse w cs u pid qs hist)))) \<and>
   (addMessage sm (store sv) sid u User = (Some um, st1) \<and> getSession sm st1 sid = Some session \<and>
    toLowerCase u \<noteq> ''questions'' \<and>
    (\<forall>cs' ms. \<exists>e. model_generateContent w cs' ms generation_config = Inl e) \<longrightarrow>
      sent (on_message w sm sid pid sv (Message u)) =
        sent sv @ [MessageFrame (fst (addMessage sm st1 sid apology_text Bot))])"
proof (intro conjI impI)
  assume "\<exists>e. fst (generateResponse_try w cs u pid qs hist) = Inl e"
  then show "fst (generateResponse w cs u pid qs hist) = apology_text"
    using generateResponse_caught by blast
next
  assume "\<forall>cs' ms. \<exists>e. model_generateContent w cs' ms generation_config = Inl e"
  then show "fst (generateResponse w cs u pid qs hist) = apology_text"
    by (rule generateResponse_model_fails)
next
  show "fst (generateResponse w cs u pid qs hist) = apology_text \<or>
    (\<exists>cs' info. model_generateContent w cs' (conversation qs info hist u) generation_config =
       Inr (fst (generateResponse w cs u pid qs hist)))"
    by (rule generateResponse_apology_or_model)
next
  assume h: "addMessage sm (store sv) sid u User = (Some um, st1) \<and> getSession sm st1 sid = Some session \<and>
    toLowerCase u \<noteq> ''questions'' \<and>
    (\<forall>cs' ms. \<exists>e. model_generateContent w cs' ms generation_config = Inl e)"
  then have a: "addMessage sm (store sv) sid u User = (Some um, st1)"
    and s: "getSession sm st1 sid = Some session" and l: "toLowerCase u \<noteq> ''questions''"
    and f: "\<forall>cs' ms. \<exists>e. model_generateContent w cs' ms generation_config = Inl e"
    by blast+
  show "sent (on_message w sm sid pid sv (Message u)) =
        sent sv @ [MessageFrame (fst (addMessage sm st1 sid apology_text Bot))]"
    unfolding on_message_pipeline [OF a s l refl] generateResponse_model_fails [OF f]
    by simp
qed

text \<open>With every call of the model rejected, the reply to a message is the apology.\<close>

theorem generateResponse_failure_apology_witness:
  "(\<forall>cs' ms. \<exists>e. model_generateContent model_down cs' ms generation_config = Inl e) \<and>
   fst (generateResponse model_down [] ''X is good'' ''p1'' [] []) = apology_text \<and>
   sent (on_message model_down sessionManager ''s0'' ''p1'' sample_server (Message ''X is good'')) =
     [MessageFrame (Some (message 2 Bot apology_text))]"
proof -
  have f: "\<forall>cs' ms. \<exists>e. model_generateContent model_down cs' ms generation_config = Inl e"
    by (simp add: model_down_def)
  have l: "toLowerCase ''X is good'' \<noteq> ''questions''"
    by (simp add: toLowerCase_def lower_char_def)
  from generateResponse_failure_apology [where w = model_down and cs = "[]" and u = "''X is good''"
      and pid = "''p1''" and qs = "[]" and hist = "[]" and sm = sessionManager
      and sv = sample_server and sid = "''s0''", OF ] f l
    sample_server_user_message [of "''X is good''"] sample_server_session [of "''X is good''"]
  have "fst (generateResponse model_down [] ''X is good'' ''p1'' [] []) = apology_text"
    and "sent (on_message model_down sessionManager ''s0'' ''p1'' sample_server (Message ''X is good'')) =
       sent sample_server @ [MessageFrame (fst (addMessage sessionManager
         \<lparr>sessions = [(''s0'', \<lparr>session_id = ''s0'', session_project = ''p1'',
                            history = [message 1 User ''X is good''], createdAt = 0\<rparr>)],
          counter = 2\<rparr> ''s0'' apology_text Bot))]"
    by blast+
  then show ?thesis
    unfolding sample_server_bot_message sample_server_fresh using f by simp
qed

end
